theory Spec2Isabelle
  imports Main
begin

section \<open>Values of the program\<close>

text \<open>
  The program of \<^verbatim>\<open>src/app/main.py\<close> handles the values that \<^verbatim>\<open>json.load\<close>,
  \<^verbatim>\<open>request.get_json\<close> and \<^verbatim>\<open>response.json\<close> produce: \<^verbatim>\<open>None\<close>, booleans,
  integers, strings, lists and dicts. A dict keeps its keys in insertion order, so it is
  an association list; its keys are distinct, and every function below reads and writes
  the first binding of a key. A \<^verbatim>\<open>str\<close> is a list of characters, one \<^typ>\<open>char\<close> for
  each character (the characters of Latin-1), so that \<^verbatim>\<open>len\<close> is \<^const>\<open>length\<close>.
  Numbers with a fraction are left out: the program never computes with one.
\<close>

datatype json =
    JNull
  | JBool bool
  | JInt int
  | JStr string
  | JList "json list"
  | JDict "(string \<times> json) list"

text \<open>
  Exceptions, each with the text that \<^verbatim>\<open>str(e)\<close> gives. All of them derive from
  \<^verbatim>\<open>Exception\<close>, so an \<^verbatim>\<open>except Exception\<close> clause catches every one.
  \<open>LibraryError\<close> stands for what the libraries raise (the file system, the JSON
  parser, Flask, requests, and \<^verbatim>\<open>print\<close> on a standard output that cannot encode a
  line); its text comes from the environment.
\<close>

datatype py_exn =
    TypeError string
  | AttributeError string
  | KeyError string
  | LibraryError string

fun str_exn :: "py_exn \<Rightarrow> string" where
  "str_exn (TypeError m) = m"
| "str_exn (AttributeError m) = m"
| "str_exn (KeyError k) = CHR 0x27 # k @ [CHR 0x27]"
| "str_exn (LibraryError m) = m"

subsection \<open>The operations of Python the program uses\<close>

fun type_name :: "json \<Rightarrow> string" where
  "type_name JNull = ''NoneType''"
| "type_name (JBool b) = ''bool''"
| "type_name (JInt i) = ''int''"
| "type_name (JStr s) = ''str''"
| "type_name (JList xs) = ''list''"
| "type_name (JDict kv) = ''dict''"

definition quoted :: "string \<Rightarrow> string" where
  "quoted s = CHR 0x27 # s @ [CHR 0x27]"

definition no_attribute :: "json \<Rightarrow> string \<Rightarrow> py_exn" where
  "no_attribute v name =
     AttributeError (quoted (type_name v) @ '' object has no attribute '' @ quoted name)"

text \<open>The truth value of an object, as \<^verbatim>\<open>x or y\<close> and \<^verbatim>\<open>x if c else y\<close> test it.\<close>

fun truthy :: "json \<Rightarrow> bool" where
  "truthy JNull = False"
| "truthy (JBool b) = b"
| "truthy (JInt i) = (i \<noteq> 0)"
| "truthy (JStr s) = (s \<noteq> [])"
| "truthy (JList xs) = (xs \<noteq> [])"
| "truthy (JDict kv) = (kv \<noteq> [])"

text \<open>\<^verbatim>\<open>len(x)\<close>.\<close>

fun py_len :: "json \<Rightarrow> py_exn + nat" where
  "py_len (JStr s) = Inr (length s)"
| "py_len (JList xs) = Inr (length xs)"
| "py_len (JDict kv) = Inr (length kv)"
| "py_len v = Inl (TypeError (''object of type '' @ quoted (type_name v) @ '' has no len()''))"

text \<open>\<^verbatim>\<open>d.get(key, default)\<close>: a method of dicts only.\<close>

fun py_get :: "json \<Rightarrow> string \<Rightarrow> json \<Rightarrow> py_exn + json" where
  "py_get (JDict kv) key dflt = Inr (case map_of kv key of Some v \<Rightarrow> v | None \<Rightarrow> dflt)"
| "py_get v key dflt = Inl (no_attribute v ''get'')"

text \<open>\<^verbatim>\<open>x[key]\<close> with a string for the key.\<close>

fun py_getitem :: "json \<Rightarrow> string \<Rightarrow> py_exn + json" where
  "py_getitem (JDict kv) key = (case map_of kv key of Some v \<Rightarrow> Inr v | None \<Rightarrow> Inl (KeyError key))"
| "py_getitem (JList xs) key = Inl (TypeError ''list indices must be integers or slices, not str'')"
| "py_getitem (JStr s) key = Inl (TypeError (''string indices must be integers, not '' @ quoted ''str''))"
| "py_getitem v key = Inl (TypeError (quoted (type_name v) @ '' object is not subscriptable''))"

text \<open>
  \<^verbatim>\<open>d[key] = v\<close> on a dict: the binding of an existing key is replaced where it
  stands, a new key goes to the end.
\<close>

fun dict_set :: "(string \<times> json) list \<Rightarrow> string \<Rightarrow> json \<Rightarrow> (string \<times> json) list" where
  "dict_set [] key v = [(key, v)]"
| "dict_set ((k, w) # kv) key v = (if k = key then (key, v) # kv else (k, w) # dict_set kv key v)"

fun py_setitem :: "json \<Rightarrow> string \<Rightarrow> json \<Rightarrow> py_exn + json" where
  "py_setitem (JDict kv) key v = Inr (JDict (dict_set kv key v))"
| "py_setitem (JList xs) key v = Inl (TypeError ''list indices must be integers or slices, not str'')"
| "py_setitem x key v = Inl (TypeError (quoted (type_name x) @ '' object does not support item assignment''))"

text \<open>
  Slices. \<open>slice_index n i\<close> is the position a slice bound \<open>i\<close> denotes in a
  sequence of length \<open>n\<close>: a negative bound counts from the end, and every bound is
  clamped to \<open>0..n\<close>. \<open>None\<close> stands for a bound left out.
\<close>

definition slice_index :: "nat \<Rightarrow> int \<Rightarrow> nat" where
  "slice_index n i = (if i < 0 then nat (int n + i) else min n (nat i))"

definition slice :: "'a list \<Rightarrow> int option \<Rightarrow> int option \<Rightarrow> 'a list" where
  "slice xs start stop =
     (let a = (case start of None \<Rightarrow> 0 | Some i \<Rightarrow> slice_index (length xs) i);
          b = (case stop of None \<Rightarrow> length xs | Some j \<Rightarrow> slice_index (length xs) j)
      in take (b - a) (drop a xs))"

fun py_slice :: "json \<Rightarrow> int option \<Rightarrow> int option \<Rightarrow> py_exn + json" where
  "py_slice (JStr s) start stop = Inr (JStr (slice s start stop))"
| "py_slice (JList xs) start stop = Inr (JList (slice xs start stop))"
| "py_slice (JDict kv) start stop = Inl (TypeError (''unhashable type: '' @ quoted ''slice''))"
| "py_slice v start stop = Inl (TypeError (quoted (type_name v) @ '' object is not subscriptable''))"

text \<open>
  \<^verbatim>\<open>s.strip()\<close> removes the white space at both ends of a string; these are the
  characters of Latin-1 that \<^verbatim>\<open>str.isspace\<close> accepts.
\<close>

definition is_space :: "char \<Rightarrow> bool" where
  "is_space c = (of_char c \<in> {9, 10, 11, 12, 13, 28, 29, 30, 31, 32, 133, 160 :: nat})"

definition strip :: "string \<Rightarrow> string" where
  "strip s = rev (dropWhile is_space (rev (dropWhile is_space s)))"

fun py_strip :: "json \<Rightarrow> py_exn + string" where
  "py_strip (JStr s) = Inr (strip s)"
| "py_strip v = Inl (no_attribute v ''strip'')"

text \<open>\<^verbatim>\<open>x == n\<close> for an integer \<open>n\<close>: \<^verbatim>\<open>True\<close> and \<^verbatim>\<open>False\<close> are the integers 1 and 0.\<close>

fun py_eq_int :: "json \<Rightarrow> int \<Rightarrow> bool" where
  "py_eq_int (JInt i) n = (i = n)"
| "py_eq_int (JBool b) n = ((if b then 1 else 0) = n)"
| "py_eq_int v n = False"

text \<open>What a \<^verbatim>\<open>for\<close> loop over \<open>x\<close> visits.\<close>

fun py_iter :: "json \<Rightarrow> py_exn + json list" where
  "py_iter (JList xs) = Inr xs"
| "py_iter (JDict kv) = Inr (map (\<lambda>(k, v). JStr k) kv)"
| "py_iter (JStr s) = Inr (map (\<lambda>c. JStr [c]) s)"
| "py_iter v = Inl (TypeError (quoted (type_name v) @ '' object is not iterable''))"

text \<open>\<^verbatim>\<open>str(n)\<close> for an integer: its decimal digits.\<close>

definition digit :: "nat \<Rightarrow> char" where
  "digit d = ''0123456789'' ! d"

fun str_nat :: "nat \<Rightarrow> string" where
  "str_nat n = (if n < 10 then [digit n] else str_nat (n div 10) @ [digit (n mod 10)])"

definition str_int :: "int \<Rightarrow> string" where
  "str_int i = (if i < 0 then CHR ''-'' # str_nat (nat (- i)) else str_nat (nat i))"

section \<open>The conversation log\<close>

text \<open>
  The storage file \<^verbatim>\<open>/data/conversations.json\<close>, as the program can find it:
  not there; there, but \<^verbatim>\<open>open\<close> or the read raises; there with a content that
  \<^verbatim>\<open>json.load\<close> rejects; or holding a JSON document, which \<^verbatim>\<open>json.load\<close>
  returns.
\<close>

datatype file_state =
    Absent
  | Unreadable py_exn
  | Malformed py_exn
  | Holds json

text \<open>
  Every line that the functions below print starts with an emoji. Standard output either
  takes such a line, or \<^verbatim>\<open>print\<close> raises on it (an encoding that has no emoji).
\<close>

datatype console =
    Encodes
  | Refuses py_exn

text \<open>
  \<^verbatim>\<open>load_conversations\<close>, lines 21 to 29. \<open>load_try\<close> is the body of its
  \<^verbatim>\<open>try\<close>: it raises, returns a value, or falls through (\<open>None\<close>) when the file
  does not exist. The \<^verbatim>\<open>except Exception\<close> clause prints the exception (line 28)
  and falls through as well, to \<^verbatim>\<open>return []\<close>; the \<^verbatim>\<open>print\<close> stands under
  no \<^verbatim>\<open>try\<close>, so what it raises leaves the function.
\<close>

fun load_try :: "file_state \<Rightarrow> py_exn + json option" where
  "load_try Absent = Inr None"
| "load_try (Unreadable e) = Inl e"
| "load_try (Malformed e) = Inl e"
| "load_try (Holds v) = Inr (Some v)"

definition load_conversations_on :: "console \<Rightarrow> file_state \<Rightarrow> py_exn + json" where
  "load_conversations_on out file =
     (case load_try file of
        Inr (Some v) \<Rightarrow> Inr v
      | Inr None \<Rightarrow> Inr (JList [])
      | Inl e \<Rightarrow>
          (case out of
             Refuses x \<Rightarrow> Inl x
           | Encodes \<Rightarrow> Inr (JList [])))"

text \<open>
  From here on the program runs on a standard output that takes its log lines (lines 38,
  64, 67, 89, 108 and 126 print one each, and started as a script the program prints one
  before it serves anything): \<open>load_conversations\<close> is the function on such an output,
  and the prints of the other functions have no effect on what they return.
\<close>

definition load_conversations :: "file_state \<Rightarrow> py_exn + json" where
  "load_conversations file = load_conversations_on Encodes file"

text \<open>
  \<^verbatim>\<open>save_conversations\<close>, lines 31 to 39. Whether the write goes through is up to
  the environment: \<^verbatim>\<open>open\<close> may raise, which leaves the file as it was, or
  \<^verbatim>\<open>json.dump\<close> may raise after \<^verbatim>\<open>open\<close> has emptied the file, which leaves
  an incomplete document behind (the next \<^verbatim>\<open>json.load\<close> rejects it). Both
  exceptions are caught and answered with \<^verbatim>\<open>False\<close>.
\<close>

datatype write_outcome =
    Written
  | OpenRaises py_exn
  | DumpRaises py_exn

fun save_conversations :: "write_outcome \<Rightarrow> json \<Rightarrow> file_state \<Rightarrow> bool \<times> file_state" where
  "save_conversations Written conversations file = (True, Holds conversations)"
| "save_conversations (OpenRaises e) conversations file = (False, file)"
| "save_conversations (DumpRaises e) conversations file =
     (False, Malformed (LibraryError ''Expecting value''))"

text \<open>
  \<^verbatim>\<open>add_conversation\<close>, lines 41 to 68, mutates dicts that two names refer to:
  \<^verbatim>\<open>conversation\<close>, the new record, is also the last element of
  \<^verbatim>\<open>conversations\<close>, and the renumbering loop writes through the list. So the
  objects live in a store, a list of values where an address is a position, and
  \<^verbatim>\<open>conversations\<close> is a list of addresses. \<^verbatim>\<open>json.load\<close> builds one object
  of its own for every element of the list it returns.
\<close>

type_synonym addr = nat
type_synonym store = "json list"

text \<open>Lines 60 and 61: \<^verbatim>\<open>for i, conv in enumerate(conversations): conv["id"] = i + 1\<close>.\<close>

fun reassign_ids :: "nat \<Rightarrow> addr list \<Rightarrow> store \<Rightarrow> py_exn + store" where
  "reassign_ids i [] s = Inr s"
| "reassign_ids i (conv # rest) s =
     (case py_setitem (s ! conv) ''id'' (JInt (int i + 1)) of
        Inl e \<Rightarrow> Inl e
      | Inr d \<Rightarrow> reassign_ids (Suc i) rest (s[conv := d]))"

text \<open>Lines 57 to 61: the list is cut to its last 100 addresses and the ids rewritten.\<close>

definition trim :: "addr list \<Rightarrow> store \<Rightarrow> py_exn + addr list \<times> store" where
  "trim conversations s =
     (if length conversations > 100 then
        (let conversations' = slice conversations (Some (- 100)) None in
         case reassign_ids 0 conversations' s of
           Inl e \<Rightarrow> Inl e
         | Inr s' \<Rightarrow> Inr (conversations', s'))
      else Inr (conversations, s))"

text \<open>The dict of lines 45 to 52; \<open>now\<close> is \<^verbatim>\<open>datetime.now().isoformat()\<close>.\<close>

definition new_conversation :: "nat \<Rightarrow> string \<Rightarrow> json \<Rightarrow> string \<Rightarrow> string \<Rightarrow> json" where
  "new_conversation n now prompt response model_name =
     JDict [(''id'', JInt (int n + 1)),
            (''timestamp'', JStr now),
            (''prompt'', prompt),
            (''response'', JStr response),
            (''model'', JStr model_name),
            (''response_length'', JInt (int (length response)))]"

text \<open>
  \<^verbatim>\<open>add_conversation\<close>. The result is the exception it raises, or what it returns
  (the record, or \<open>None\<close>) with the file as it leaves it. \<^verbatim>\<open>append\<close> is a
  method of lists only.
\<close>

definition add_conversation ::
  "write_outcome \<Rightarrow> string \<Rightarrow> file_state \<Rightarrow> json \<Rightarrow> string \<Rightarrow> string
     \<Rightarrow> py_exn + json option \<times> file_state" where
  "add_conversation w now file prompt response model_name =
     (case load_conversations file of
        Inl e \<Rightarrow> Inl e
      | Inr loaded \<Rightarrow>
     (case py_len loaded of
        Inl e \<Rightarrow> Inl e
      | Inr n \<Rightarrow>
     (let conversation = new_conversation n now prompt response model_name in
      case loaded of
        JList xs \<Rightarrow>
          (let s = xs @ [conversation];
               a = length xs;
               conversations = [0..<length xs] @ [a]
           in case trim conversations s of
                Inl e \<Rightarrow> Inl e
              | Inr (conversations', s') \<Rightarrow>
                  (case save_conversations w (JList (map (\<lambda>c. s' ! c) conversations')) file of
                     (True, file') \<Rightarrow> Inr (Some (s' ! a), file')
                   | (False, file') \<Rightarrow> Inr (None, file')))
      | _ \<Rightarrow> Inl (no_attribute loaded ''append''))))"

section \<open>The generation gateway\<close>

text \<open>
  What the handler of \<^verbatim>\<open>POST /generate\<close> meets outside the program. The backend
  answers \<^verbatim>\<open>requests.post\<close> by raising (a timeout, a refused connection) or with a
  status code and a body; \<^verbatim>\<open>response.json()\<close> raises on a body that is not JSON, so
  the body is an exception or a value. The payload is fixed but for its prompt (the
  model name, \<^verbatim>\<open>stream: False\<close> and the temperature are constants), so the backend
  is a function of the prompt. \<open>model_name\<close> is \<^verbatim>\<open>MODEL_NAME\<close>, \<open>now\<close> the clock
  at the time of the append, \<open>write\<close> the fate of the write of this request.
\<close>

datatype backend_outcome =
    PostRaises py_exn
  | Responds int "py_exn + json"

record env =
  model_name :: string
  now :: string
  backend :: "json \<Rightarrow> backend_outcome"
  "write" :: write_outcome

definition default_prompt :: string where
  "default_prompt = ''Hello, how are you?''"

text \<open>
  The documents the handlers answer with, each with its HTTP status:
  \<^verbatim>\<open>jsonify({...})\<close> is the pair of the dict and 200.
\<close>

definition success_body :: "string \<Rightarrow> string \<Rightarrow> json \<Rightarrow> json" where
  "success_body generated_text model conversation_id =
     JDict [(''status'', JStr ''success''),
            (''generated_text'', JStr generated_text),
            (''model'', JStr model),
            (''conversation_id'', conversation_id)]"

definition error_body :: "string \<Rightarrow> json" where
  "error_body message = JDict [(''status'', JStr ''error''), (''message'', JStr message)]"

text \<open>
  Lines 86 to 89. \<open>request_json\<close> is what \<^verbatim>\<open>request.get_json()\<close> does: it raises
  or returns the parsed body. \<^verbatim>\<open>prompt[:50]\<close> is evaluated for the log line, and
  raises on a prompt that cannot be sliced.
\<close>

definition read_prompt :: "py_exn + json \<Rightarrow> py_exn + json" where
  "read_prompt request_json =
     (case request_json of
        Inl e \<Rightarrow> Inl e
      | Inr body \<Rightarrow>
          (let data = (if truthy body then body else JDict []) in
           case py_get data ''prompt'' (JStr default_prompt) of
             Inl e \<Rightarrow> Inl e
           | Inr prompt \<Rightarrow>
               (case py_slice prompt None (Some 50) of
                  Inl e \<Rightarrow> Inl e
                | Inr shown \<Rightarrow> Inr prompt)))"

text \<open>Line 117: \<^verbatim>\<open>conversation["id"] if conversation else None\<close>.\<close>

definition conversation_id :: "json option \<Rightarrow> py_exn + json" where
  "conversation_id conversation =
     (case conversation of
        None \<Rightarrow> Inr JNull
      | Some c \<Rightarrow> (if truthy c then py_getitem c ''id'' else Inr JNull))"

text \<open>
  The body of the \<^verbatim>\<open>try\<close> of \<^verbatim>\<open>generate_text\<close>, lines 86 to 123. It gives the
  exception raised or the answer returned, the storage file as it is left, and the
  prompts sent to the backend (none or one).
\<close>

definition generate_try ::
  "env \<Rightarrow> py_exn + json \<Rightarrow> file_state \<Rightarrow> (py_exn + json \<times> int) \<times> file_state \<times> json list" where
  "generate_try w request_json file =
     (case read_prompt request_json of
        Inl e \<Rightarrow> (Inl e, file, [])
      | Inr prompt \<Rightarrow>
          (case backend w prompt of
             PostRaises e \<Rightarrow> (Inl e, file, [prompt])
           | Responds status_code body \<Rightarrow>
               if status_code = 200 then
                 (case body of
                    Inl e \<Rightarrow> (Inl e, file, [prompt])
                  | Inr result \<Rightarrow>
                 (case py_get result ''response'' (JStr []) of
                    Inl e \<Rightarrow> (Inl e, file, [prompt])
                  | Inr text \<Rightarrow>
                 (case py_strip text of
                    Inl e \<Rightarrow> (Inl e, file, [prompt])
                  | Inr generated_text \<Rightarrow>
                 (case add_conversation (write w) (now w) file prompt generated_text (model_name w) of
                    Inl e \<Rightarrow> (Inl e, file, [prompt])
                  | Inr (conversation, file') \<Rightarrow>
                 (case conversation_id conversation of
                    Inl e \<Rightarrow> (Inl e, file', [prompt])
                  | Inr cid \<Rightarrow>
                      (Inr (success_body generated_text (model_name w) cid, 200),
                       file', [prompt]))))))
               else
                 (Inr (error_body (''Ollama API error: '' @ str_int status_code), 500),
                  file, [prompt])))"

text \<open>\<^verbatim>\<open>generate_text\<close> with its \<^verbatim>\<open>except Exception\<close> clause, lines 125 to 130.\<close>

definition generate_text ::
  "env \<Rightarrow> py_exn + json \<Rightarrow> file_state \<Rightarrow> (json \<times> int) \<times> file_state \<times> json list" where
  "generate_text w request_json file =
     (case generate_try w request_json file of
        (Inl e, file', calls) \<Rightarrow> ((error_body (str_exn e), 500), file', calls)
      | (Inr reply, file', calls) \<Rightarrow> (reply, file', calls))"

section \<open>Reading the history\<close>

text \<open>
  \<^verbatim>\<open>get_conversations\<close>, lines 147 to 165. An argument of the query is \<open>None\<close>
  when it is missing or is not an integer: \<^verbatim>\<open>request.args.get\<close> then gives the
  default. The handler has no \<^verbatim>\<open>try\<close>: an exception leaves it.
\<close>

definition get_conversations :: "int option \<Rightarrow> int option \<Rightarrow> file_state \<Rightarrow> py_exn + json \<times> int" where
  "get_conversations limit_arg offset_arg file =
     (case load_conversations file of
        Inl e \<Rightarrow> Inl e
      | Inr conversations \<Rightarrow>
          (let limit = (case limit_arg of None \<Rightarrow> 20 | Some l \<Rightarrow> l);
               offset = (case offset_arg of None \<Rightarrow> 0 | Some k \<Rightarrow> k)
           in case py_slice conversations (Some offset) (Some (offset + limit)) of
                Inl e \<Rightarrow> Inl e
              | Inr paginated_conversations \<Rightarrow>
                  (case py_len conversations of
                     Inl e \<Rightarrow> Inl e
                   | Inr total' \<Rightarrow>
                       Inr (JDict [(''status'', JStr ''success''),
                                   (''total'', JInt (int total')),
                                   (''limit'', JInt limit),
                                   (''offset'', JInt offset),
                                   (''conversations'', paginated_conversations)], 200))))"

text \<open>The loop of \<^verbatim>\<open>get_conversation\<close>, lines 172 to 177: the first match is returned.\<close>

fun find_conversation :: "json list \<Rightarrow> int \<Rightarrow> py_exn + json option" where
  "find_conversation [] cid = Inr None"
| "find_conversation (conv # rest) cid =
     (case py_getitem conv ''id'' of
        Inl e \<Rightarrow> Inl e
      | Inr v \<Rightarrow> if py_eq_int v cid then Inr (Some conv) else find_conversation rest cid)"

text \<open>\<^verbatim>\<open>get_conversation\<close>, lines 167 to 182.\<close>

definition get_conversation :: "int \<Rightarrow> file_state \<Rightarrow> py_exn + json \<times> int" where
  "get_conversation cid file =
     (case load_conversations file of
        Inl e \<Rightarrow> Inl e
      | Inr conversations \<Rightarrow>
          (case py_iter conversations of
             Inl e \<Rightarrow> Inl e
           | Inr convs \<Rightarrow>
               (case find_conversation convs cid of
                  Inl e \<Rightarrow> Inl e
                | Inr (Some conv) \<Rightarrow>
                    Inr (JDict [(''status'', JStr ''success''), (''conversation'', conv)], 200)
                | Inr None \<Rightarrow>
                    Inr (error_body (''Conversation #'' @ str_int cid @ '' not found''), 404))))"

section \<open>Notions the properties are stated with\<close>

text \<open>A record is a dict; \<open>field c key\<close> is what the record \<open>c\<close> holds under \<open>key\<close>.\<close>

definition is_dict :: "json \<Rightarrow> bool" where
  "is_dict v = (case v of JDict kv \<Rightarrow> True | _ \<Rightarrow> False)"

definition field :: "json \<Rightarrow> string \<Rightarrow> json option" where
  "field v key = (case v of JDict kv \<Rightarrow> map_of kv key | _ \<Rightarrow> None)"

text \<open>
  The history that lines 57 to 61 leave, told without the store: the last 100 records,
  each with the id of its position.
\<close>

definition with_id :: "json \<Rightarrow> int \<Rightarrow> json" where
  "with_id c i = (case c of JDict kv \<Rightarrow> JDict (dict_set kv ''id'' (JInt i)) | _ \<Rightarrow> c)"

definition renumbered :: "json list \<Rightarrow> json list" where
  "renumbered xs = map (\<lambda>(i, c). with_id c (int i + 1)) (enumerate 0 xs)"

definition kept :: "json list \<Rightarrow> json list" where
  "kept xs = (if length xs > 100 then renumbered (drop (length xs - 100) xs) else xs)"

text \<open>
  A record is consistent when its \<open>response_length\<close> is the number of characters of
  its \<open>response\<close>, and the response has no white space at either end.
\<close>

definition consistent :: "json \<Rightarrow> bool" where
  "consistent c =
     (case field c ''response'' of
        Some (JStr s) \<Rightarrow> field c ''response_length'' = Some (JInt (int (length s))) \<and> strip s = s
      | _ \<Rightarrow> False)"

text \<open>The ids of a history are dense when they are 1, 2, ... in the order of the records.\<close>

definition dense_ids :: "json list \<Rightarrow> bool" where
  "dense_ids h = (map (\<lambda>c. field c ''id'') h = map (\<lambda>i. Some (JInt i)) [1..int (length h)])"

definition history_inv :: "json list \<Rightarrow> bool" where
  "history_inv h = (length h \<le> 100 \<and> list_all is_dict h \<and> dense_ids h \<and> list_all consistent h)"

definition file_inv :: "file_state \<Rightarrow> bool" where
  "file_inv file = (case load_conversations file of Inr (JList h) \<Rightarrow> history_inv h | _ \<Rightarrow> False)"

text \<open>
  A sequence of appends whose writes all go through; each append comes with its
  time, prompt, response and model name.
\<close>

fun append_all :: "file_state \<Rightarrow> (string \<times> json \<times> string \<times> string) list \<Rightarrow> py_exn + file_state" where
  "append_all file [] = Inr file"
| "append_all file ((stamp, prompt, response, model) # rest) =
     (case add_conversation Written stamp file prompt response model of
        Inl e \<Rightarrow> Inl e
      | Inr (conversation, file') \<Rightarrow> append_all file' rest)"

definition appended :: "nat \<Rightarrow> (string \<times> json \<times> string \<times> string) list \<Rightarrow> json list" where
  "appended n calls =
     map (\<lambda>(i, stamp, prompt, response, model). new_conversation i stamp prompt response model)
       (enumerate n calls)"

text \<open>
  The service handles one request after the other. Only \<^verbatim>\<open>POST /generate\<close> writes
  the file, so the file the service has reached is the one a sequence of such requests
  leaves, each request in its own environment.
\<close>

fun serve :: "file_state \<Rightarrow> (env \<times> (py_exn + json)) list \<Rightarrow> file_state" where
  "serve file [] = file"
| "serve file ((w, request_json) # rest) = serve (fst (snd (generate_text w request_json file))) rest"

text \<open>Environments and requests of the examples.\<close>

definition hello_env :: env where
  "hello_env =
     \<lparr>model_name = ''llama3.2:3b'', now = ''2024-05-01T12:00:00'',
      backend = (\<lambda>prompt. Responds 200 (Inr (JDict [(''response'', JStr '' Hello! '')]))),
      write = Written\<rparr>"

definition hi_request :: "py_exn + json" where
  "hi_request = Inr (JDict [(''prompt'', JStr ''Hi'')])"

definition failing_env :: env where
  "failing_env =
     hello_env\<lparr>backend := (\<lambda>prompt. Responds 500 (Inr (JDict [(''error'', JStr ''model not found'')])))\<rparr>"

definition offline_env :: env where
  "offline_env = hello_env\<lparr>backend := (\<lambda>prompt. PostRaises (LibraryError ''Connection refused''))\<rparr>"

definition garbled_env :: env where
  "garbled_env =
     hello_env\<lparr>backend := (\<lambda>prompt. Responds 200 (Inl (LibraryError ''Expecting value'')))\<rparr>"

definition silent_env :: env where
  "silent_env = hello_env\<lparr>backend := (\<lambda>prompt. Responds 200 (Inr (JDict [(''done'', JBool True)])))\<rparr>"


definition missing_env :: env where
  "missing_env =
     hello_env\<lparr>backend := (\<lambda>prompt. Responds 404 (Inr (JDict [(''error'', JStr ''model not found'')])))\<rparr>"

definition created_env :: env where
  "created_env = hello_env\<lparr>backend := (\<lambda>prompt. Responds 201 (Inr (JDict [(''done'', JBool True)])))\<rparr>"

definition listing_env :: env where
  "listing_env = hello_env\<lparr>backend := (\<lambda>prompt. Responds 200 (Inr (JList [])))\<rparr>"

definition counting_env :: env where
  "counting_env = hello_env\<lparr>backend := (\<lambda>prompt. Responds 200 (Inr (JDict [(''response'', JInt 7)])))\<rparr>"

section \<open>Properties of the conversation log\<close>

text \<open>The equation of \<open>str_nat\<close> rewrites its own right-hand side; it is used by name.\<close>

declare str_nat.simps [simp del]

lemma load_conversations_simps [simp]:
  "load_conversations Absent = Inr (JList [])"
  "load_conversations (Unreadable e) = Inr (JList [])"
  "load_conversations (Malformed e) = Inr (JList [])"
  "load_conversations (Holds v) = Inr v"
  by (simp_all add: load_conversations_def load_conversations_on_def)

lemma load_conversations_returns: "\<exists>v. load_conversations file = Inr v"
  by (cases "file") simp_all

text \<open>
  Claim C3, as stated, fails: for a file that cannot be read or parsed the
  \<^verbatim>\<open>except\<close> clause prints a line, and on a standard output that refuses the line
  the exception of \<^verbatim>\<open>print\<close> leaves \<^verbatim>\<open>load_conversations\<close>.
\<close>

theorem load_conversations_on_print_raises:
  "load_conversations_on
     (Refuses (LibraryError ''ascii codec cannot encode character''))
     (Malformed (LibraryError ''Expecting value''))
   = Inl (LibraryError ''ascii codec cannot encode character'')"
  by (simp add: load_conversations_on_def)

text \<open>
  Claim C3, amended. For an absent file \<^verbatim>\<open>load_conversations\<close> returns the empty
  list on any standard output (nothing is printed). For a file that cannot be read, or
  whose content is not JSON, it returns the empty list when standard output takes the
  line of the \<^verbatim>\<open>except\<close> clause, and the exception of the read goes no further;
  when \<^verbatim>\<open>print\<close> raises on that line, its exception is what the caller gets.
\<close>

theorem load_conversations_on_failed_read:
  "load_conversations_on out Absent = Inr (JList [])
   \<and> (f = Unreadable e \<or> f = Malformed e \<longrightarrow>
        load_conversations_on Encodes f = Inr (JList [])
        \<and> load_conversations_on (Refuses x) f = Inl x)"
  by (auto simp: load_conversations_on_def)

theorem load_conversations_on_failed_read_witness:
  "load_conversations_on Encodes (Malformed (LibraryError ''Expecting value'')) = Inr (JList [])
   \<and> load_conversations_on (Refuses (LibraryError ''ascii codec cannot encode character''))
        (Unreadable (LibraryError ''Permission denied''))
      = Inl (LibraryError ''ascii codec cannot encode character'')
   \<and> load_conversations_on (Refuses (LibraryError ''ascii codec cannot encode character'')) Absent
      = Inr (JList [])"
proof -
  from load_conversations_on_failed_read
    [where f = "Malformed (LibraryError ''Expecting value'')"
       and e = "LibraryError ''Expecting value''"]
  have "load_conversations_on Encodes (Malformed (LibraryError ''Expecting value'')) = Inr (JList [])"
    by simp
  moreover from load_conversations_on_failed_read
    [where f = "Unreadable (LibraryError ''Permission denied'')"
       and e = "LibraryError ''Permission denied''"
       and x = "LibraryError ''ascii codec cannot encode character''"]
  have "load_conversations_on (Refuses (LibraryError ''ascii codec cannot encode character''))
        (Unreadable (LibraryError ''Permission denied''))
      = Inl (LibraryError ''ascii codec cannot encode character'')"
    by simp
  moreover from load_conversations_on_failed_read
    [where out = "Refuses (LibraryError ''ascii codec cannot encode character'')"]
  have "load_conversations_on (Refuses (LibraryError ''ascii codec cannot encode character'')) Absent
      = Inr (JList [])"
    by simp
  ultimately show ?thesis
    by (intro conjI)
qed

lemma is_dict_simps [simp]:
  "is_dict (JDict kv)" "\<not> is_dict JNull" "\<not> is_dict (JBool b)" "\<not> is_dict (JInt i)"
  "\<not> is_dict (JStr s)" "\<not> is_dict (JList xs)"
  by (simp_all add: is_dict_def)

lemma is_dict_new_conversation [simp]: "is_dict (new_conversation n t p r m)"
  by (simp add: new_conversation_def)

lemma is_dictE: "is_dict c \<Longrightarrow> \<exists>kv. c = JDict kv"
  by (cases c) simp_all

lemma with_id_dict [simp]: "with_id (JDict kv) i = JDict (dict_set kv ''id'' (JInt i))"
  by (simp add: with_id_def)

lemma is_dict_with_id [simp]: "is_dict (with_id c i) = is_dict c"
  by (cases c) (simp_all add: with_id_def)

lemma map_of_dict_set: "map_of (dict_set kv key v) k = (if k = key then Some v else map_of kv k)"
  by (induction kv key v rule: dict_set.induct) auto

lemma field_with_id:
  "is_dict c \<Longrightarrow> field (with_id c i) key = (if key = ''id'' then Some (JInt i) else field c key)"
  by (cases c) (simp_all add: field_def map_of_dict_set)

lemma length_renumbered [simp]: "length (renumbered xs) = length xs"
  by (simp add: renumbered_def)

lemma nth_renumbered [simp]: "k < length xs \<Longrightarrow> renumbered xs ! k = with_id (xs ! k) (int k + 1)"
  by (simp add: renumbered_def nth_enumerate_eq)

lemma reassign_ids_dicts:
  assumes "distinct as" and "\<forall>a\<in>set as. a < length s \<and> is_dict (s ! a)"
  shows "\<exists>s'. reassign_ids i as s = Inr s' \<and> length s' = length s
           \<and> (\<forall>k<length as. s' ! (as ! k) = with_id (s ! (as ! k)) (int (i + k) + 1))
           \<and> (\<forall>b. b \<notin> set as \<longrightarrow> s' ! b = s ! b)"
  using assms
proof (induction as arbitrary: i s)
  case Nil
  then show ?case by simp
next
  case (Cons a as)
  from Cons.prems obtain kv where kv: "s ! a = JDict kv"
    using is_dictE by auto
  define s1 where "s1 = s[a := JDict (dict_set kv ''id'' (JInt (int i + 1)))]"
  have fresh: "a \<notin> set as" and dist: "distinct as" and a_in: "a < length s"
    using Cons.prems by auto
  have rest: "\<forall>b\<in>set as. b < length s1 \<and> is_dict (s1 ! b)"
    using Cons.prems fresh by (auto simp: s1_def nth_list_update)
  from Cons.IH [OF dist rest, of "Suc i"] obtain s' where
    run: "reassign_ids (Suc i) as s1 = Inr s'" and len: "length s' = length s1"
    and upd: "\<forall>k<length as. s' ! (as ! k) = with_id (s1 ! (as ! k)) (int (Suc i + k) + 1)"
    and same: "\<forall>b. b \<notin> set as \<longrightarrow> s' ! b = s1 ! b"
    by blast
  have step: "reassign_ids i (a # as) s = Inr s'"
    using run by (simp add: kv s1_def)
  have at_a: "s' ! a = with_id (s ! a) (int i + 1)"
    using same fresh a_in by (simp add: s1_def kv)
  have at_k: "s' ! ((a # as) ! k) = with_id (s ! ((a # as) ! k)) (int (i + k) + 1)"
    if "k < length (a # as)" for k
  proof (cases k)
    case 0
    then show ?thesis using at_a by simp
  next
    case (Suc j)
    then have j: "j < length as" using that by simp
    then have "as ! j \<noteq> a" using fresh by (metis nth_mem)
    then have "s1 ! (as ! j) = s ! (as ! j)" by (simp add: s1_def)
    then show ?thesis using upd j Suc by simp
  qed
  have others: "s' ! b = s ! b" if "b \<notin> set (a # as)" for b
    using same that by (simp add: s1_def)
  show ?case
    using step len at_k others by (auto simp: s1_def)
qed

lemma last_nth: "length xs = Suc n \<Longrightarrow> last xs = xs ! n"
  by (cases xs rule: rev_cases) (simp_all add: nth_append)

lemma slice_last_100:
  "100 < length xs \<Longrightarrow> slice xs (Some (- 100)) None = drop (length xs - 100) xs"
  by (simp add: slice_def slice_index_def nat_diff_distrib')

lemma trim_short:
  "length cs \<le> 100 \<Longrightarrow> trim cs s = Inr (cs, s)"
  by (simp add: trim_def)

lemma trim_long:
  assumes long: "100 \<le> length h"
    and dicts: "\<forall>c\<in>set (drop (length h - 99) h). is_dict c"
  shows "\<exists>s'. trim ([0..<length h] @ [length h]) (h @ [new_conversation n t p r m])
            = Inr (drop (length h - 99) ([0..<length h] @ [length h]), s')
         \<and> map (\<lambda>c. s' ! c) (drop (length h - 99) ([0..<length h] @ [length h]))
            = renumbered (drop (length h - 99) (h @ [new_conversation n t p r m]))
         \<and> s' ! length h = last (renumbered (drop (length h - 99) (h @ [new_conversation n t p r m])))"
proof -
  define c where "c = new_conversation n t p r m"
  define s where "s = h @ [c]"
  define as where "as = [length h - 99..<Suc (length h)]"
  have len_s: "length s = Suc (length h)" by (simp add: s_def)
  have whole: "[0..<length h] @ [length h] = [0..<Suc (length h)]"
    by simp
  have as_eq: "drop (length h - 99) ([0..<length h] @ [length h]) = as"
    unfolding whole as_def using long by (simp add: drop_upt del: upt_Suc)
  have sl: "slice ([0..<length h] @ [length h]) (Some (- 100)) None = as"
    using long as_eq by (simp add: slice_last_100)
  have len_as: "length as = 100" using long by (simp add: as_def del: upt_Suc)
  have nth_as: "as ! k = length h - 99 + k" if "k < 100" for k
    using that long by (simp add: as_def del: upt_Suc)
  have "distinct as" by (simp add: as_def del: upt_Suc)
  moreover have "\<forall>a\<in>set as. a < length s \<and> is_dict (s ! a)"
  proof
    fix a assume "a \<in> set as"
    then have a: "length h - 99 \<le> a" "a \<le> length h" by (simp_all add: as_def del: upt_Suc)
    show "a < length s \<and> is_dict (s ! a)"
    proof (cases "a = length h")
      case True
      then show ?thesis by (simp add: s_def c_def)
    next
      case False
      then have lt: "a < length h" using a by simp
      have "drop (length h - 99) h ! (a - (length h - 99)) = h ! a"
        using a lt by simp
      moreover have "a - (length h - 99) < length (drop (length h - 99) h)"
        using a lt by simp
      ultimately have "h ! a \<in> set (drop (length h - 99) h)"
        by (metis nth_mem)
      then show ?thesis using dicts lt by (simp add: s_def nth_append)
    qed
  qed
  ultimately obtain s' where
    run: "reassign_ids 0 as s = Inr s'" and len: "length s' = length s"
    and upd: "\<forall>k<length as. s' ! (as ! k) = with_id (s ! (as ! k)) (int (0 + k) + 1)"
    using reassign_ids_dicts [of as s 0] by blast
  have tr: "trim ([0..<length h] @ [length h]) s = Inr (as, s')"
    using long run sl by (simp add: trim_def)
  have final: "map (\<lambda>c. s' ! c) as = renumbered (drop (length h - 99) s)"
  proof (rule nth_equalityI)
    show "length (map (\<lambda>c. s' ! c) as) = length (renumbered (drop (length h - 99) s))"
      using long by (simp add: len_as len_s)
  next
    fix k assume "k < length (map (\<lambda>c. s' ! c) as)"
    then have k: "k < 100" by (simp add: len_as)
    then have "s' ! (as ! k) = with_id (s ! (length h - 99 + k)) (int k + 1)"
      using upd nth_as len_as by simp
    moreover have "renumbered (drop (length h - 99) s) ! k = with_id (s ! (length h - 99 + k)) (int k + 1)"
      using k long by (simp add: len_s)
    ultimately show "map (\<lambda>c. s' ! c) as ! k = renumbered (drop (length h - 99) s) ! k"
      using k by (simp add: len_as)
  qed
  have "s' ! length h = map (\<lambda>c. s' ! c) as ! 99"
    using nth_as [of 99] long by (simp add: len_as)
  also have "\<dots> = renumbered (drop (length h - 99) s) ! 99"
    by (simp only: final)
  also have "\<dots> = last (renumbered (drop (length h - 99) s))"
  proof -
    have "length (renumbered (drop (length h - 99) s)) = 100"
      using long by (simp add: len_s)
    then have "length (renumbered (drop (length h - 99) s)) = Suc 99"
      by simp
    then show ?thesis
      by (rule last_nth [symmetric])
  qed
  finally have "s' ! length h = last (renumbered (drop (length h - 99) s))" .
  then show ?thesis
    using tr final as_eq by (auto simp: s_def c_def)
qed

lemma kept_short [simp]: "length xs \<le> 100 \<Longrightarrow> kept xs = xs"
  by (simp add: kept_def)

lemma kept_long: "100 < length xs \<Longrightarrow> kept xs = renumbered (drop (length xs - 100) xs)"
  by (simp add: kept_def)

lemma add_conversation_list:
  assumes load: "load_conversations f = Inr (JList h)"
    and dicts: "100 \<le> length h \<Longrightarrow> \<forall>c\<in>set (drop (length h - 99) h). is_dict c"
  shows "add_conversation w t f p r m =
           (case save_conversations w (JList (kept (h @ [new_conversation (length h) t p r m]))) f of
              (True, f') \<Rightarrow> Inr (Some (last (kept (h @ [new_conversation (length h) t p r m]))), f')
            | (False, f') \<Rightarrow> Inr (None, f'))"
proof (cases "length h < 100")
  case True
  let ?c = "new_conversation (length h) t p r m"
  have tr: "trim ([0..<length h] @ [length h]) (h @ [?c]) = Inr ([0..<length h] @ [length h], h @ [?c])"
    using True by (simp add: trim_short)
  have "map (\<lambda>a. (h @ [?c]) ! a) [0..<length (h @ [?c])] = h @ [?c]"
    by (rule map_nth)
  then have all: "map (\<lambda>a. (h @ [?c]) ! a) ([0..<length h] @ [length h]) = h @ [?c]"
    by simp
  have k: "kept (h @ [?c]) = h @ [?c]"
    using True by simp
  show ?thesis
    unfolding add_conversation_def load
    by (cases w) (simp_all add: tr all k Let_def nth_append del: map_append)
next
  case False
  let ?c = "new_conversation (length h) t p r m"
  from False have long: "100 \<le> length h" by simp
  from trim_long [OF long dicts [OF long], of "length h" t p r m] obtain s' where
    tr: "trim ([0..<length h] @ [length h]) (h @ [?c])
           = Inr (drop (length h - 99) ([0..<length h] @ [length h]), s')"
    and final: "map (\<lambda>a. s' ! a) (drop (length h - 99) ([0..<length h] @ [length h]))
           = renumbered (drop (length h - 99) (h @ [?c]))"
    and new: "s' ! length h = last (renumbered (drop (length h - 99) (h @ [?c])))"
    by blast
  have "length (h @ [?c]) - 100 = length h - 99"
    using long by simp
  then have k: "kept (h @ [?c]) = renumbered (drop (length h - 99) (h @ [?c]))"
    using long kept_long [of "h @ [?c]"] by simp
  show ?thesis
    unfolding add_conversation_def load
    by (cases w) (simp_all add: tr final new k Let_def del: map_append drop_append)
qed

lemma add_conversation_written:
  assumes "load_conversations f = Inr (JList h)"
    and "100 \<le> length h \<Longrightarrow> \<forall>c\<in>set (drop (length h - 99) h). is_dict c"
  shows "add_conversation Written t f p r m =
           Inr (Some (last (kept (h @ [new_conversation (length h) t p r m]))),
                Holds (JList (kept (h @ [new_conversation (length h) t p r m]))))"
  using add_conversation_list [OF assms, of Written t p r m] by simp

lemma appended_Cons:
  "appended n ((stamp, p, r, m) # calls) = new_conversation n stamp p r m # appended (Suc n) calls"
  by (simp add: appended_def)

lemma append_all_from:
  assumes "load_conversations f = Inr (JList h)" and "length h + length calls \<le> 100"
  shows "\<exists>f'. append_all f calls = Inr f'
           \<and> load_conversations f' = Inr (JList (h @ appended (length h) calls))"
  using assms
proof (induction calls arbitrary: f h)
  case Nil
  then show ?case by (simp add: appended_def)
next
  case (Cons call calls)
  obtain stamp p r m where call: "call = (stamp, p, r, m)"
    by (cases call) auto
  let ?c = "new_conversation (length h) stamp p r m"
  from Cons.prems have short: "length h < 100" by simp
  then have add: "add_conversation Written stamp f p r m = Inr (Some ?c, Holds (JList (h @ [?c])))"
    using add_conversation_written [OF Cons.prems(1), of stamp p r m] by simp
  have "load_conversations (Holds (JList (h @ [?c]))) = Inr (JList (h @ [?c]))"
    by simp
  moreover have "length (h @ [?c]) + length calls \<le> 100"
    using Cons.prems by simp
  ultimately obtain f' where
    "append_all (Holds (JList (h @ [?c]))) calls = Inr f'"
    "load_conversations f' = Inr (JList ((h @ [?c]) @ appended (length (h @ [?c])) calls))"
    using Cons.IH by blast
  then show ?case
    by (simp add: call add appended_Cons)
qed

lemma field_new_conversation [simp]:
  "field (new_conversation n t p r m) ''id'' = Some (JInt (int n + 1))"
  "field (new_conversation n t p r m) ''timestamp'' = Some (JStr t)"
  "field (new_conversation n t p r m) ''prompt'' = Some p"
  "field (new_conversation n t p r m) ''response'' = Some (JStr r)"
  "field (new_conversation n t p r m) ''model'' = Some (JStr m)"
  "field (new_conversation n t p r m) ''response_length'' = Some (JInt (int (length r)))"
  by (simp_all add: field_def new_conversation_def)

lemma ids_renumbered:
  assumes "\<forall>c\<in>set xs. is_dict c"
  shows "map (\<lambda>c. field c ''id'') (renumbered xs) = map (\<lambda>i. Some (JInt i)) [1..int (length xs)]"
proof (rule nth_equalityI)
  show "length (map (\<lambda>c. field c ''id'') (renumbered xs))
          = length (map (\<lambda>i. Some (JInt i)) [1..int (length xs)])"
    by simp
next
  fix k assume "k < length (map (\<lambda>c. field c ''id'') (renumbered xs))"
  then have k: "k < length xs" by simp
  then have "is_dict (xs ! k)" using assms by simp
  then have "field (renumbered xs ! k) ''id'' = Some (JInt (int k + 1))"
    using k by (simp add: field_with_id)
  moreover have "[1..int (length xs)] ! k = 1 + int k"
    using k by (simp add: nth_upto)
  ultimately show "map (\<lambda>c. field c ''id'') (renumbered xs) ! k
          = map (\<lambda>i. Some (JInt i)) [1..int (length xs)] ! k"
    using k by simp
qed

lemma ids_appended:
  "map (\<lambda>c. field c ''id'') (appended n calls)
     = map (\<lambda>i. Some (JInt i)) [int n + 1..int n + int (length calls)]"
proof (induction calls arbitrary: n)
  case Nil
  then show ?case by (simp add: appended_def)
next
  case (Cons call calls)
  obtain stamp p r m where call: "call = (stamp, p, r, m)"
    by (cases call) auto
  have "[int n + 1..int n + int (length (call # calls))]
          = (int n + 1) # [int (Suc n) + 1..int (Suc n) + int (length calls)]"
    by (subst upto_rec1) (simp_all add: add.commute add.left_commute)
  then show ?case
    using Cons.IH [of "Suc n"] by (simp add: call appended_Cons)
qed

lemma contents_appended:
  "map (\<lambda>c. (field c ''prompt'', field c ''response'')) (appended n calls)
     = map (\<lambda>(stamp, p, r, m). (Some p, Some (JStr r))) calls"
proof (induction calls arbitrary: n)
  case Nil
  then show ?case by (simp add: appended_def)
next
  case (Cons call calls)
  obtain stamp p r m where call: "call = (stamp, p, r, m)"
    by (cases call) auto
  show ?case
    using Cons.IH [of "Suc n"] by (simp add: call appended_Cons)
qed

text \<open>
  Claim C2. Starting from an empty history, \<open>N \<le> 100\<close> appends whose writes go through
  leave a history of \<open>N\<close> records: the records of the appends in their order
  (\<open>appended 0 calls\<close>), with the ids \<open>1..N\<close>.
\<close>

theorem append_all_dense_ids:
  assumes "load_conversations f = Inr (JList [])" and "length calls \<le> 100"
  shows "\<exists>f' h. append_all f calls = Inr f' \<and> load_conversations f' = Inr (JList h)
           \<and> h = appended 0 calls
           \<and> length h = length calls
           \<and> map (\<lambda>c. field c ''id'') h = map (\<lambda>i. Some (JInt i)) [1..int (length calls)]
           \<and> map (\<lambda>c. (field c ''prompt'', field c ''response'')) h
                = map (\<lambda>(stamp, p, r, m). (Some p, Some (JStr r))) calls"
proof -
  from append_all_from [OF assms(1), of calls] assms(2) obtain f' where
    "append_all f calls = Inr f'" "load_conversations f' = Inr (JList (appended 0 calls))"
    by auto
  moreover have "length (appended 0 calls) = length calls"
    by (simp add: appended_def)
  moreover have "map (\<lambda>c. field c ''id'') (appended 0 calls)
                   = map (\<lambda>i. Some (JInt i)) [1..int (length calls)]"
    using ids_appended [of 0 calls] by simp
  ultimately show ?thesis
    using contents_appended [of 0 calls] by blast
qed

theorem append_all_dense_ids_witness:
  "load_conversations Absent = Inr (JList [])
   \<and> length [(''t1'', JStr ''a'', ''x'', ''m''), (''t2'', JStr ''b'', ''y'', ''m'')] \<le> 100
   \<and> (\<exists>f' h. append_all Absent [(''t1'', JStr ''a'', ''x'', ''m''), (''t2'', JStr ''b'', ''y'', ''m'')] = Inr f'
         \<and> load_conversations f' = Inr (JList h)
         \<and> length h = 2
         \<and> map (\<lambda>c. field c ''id'') h = [Some (JInt 1), Some (JInt 2)]
         \<and> map (\<lambda>c. (field c ''prompt'', field c ''response'')) h
              = [(Some (JStr ''a''), Some (JStr ''x'')), (Some (JStr ''b''), Some (JStr ''y''))])"
proof -
  let ?calls = "[(''t1'', JStr ''a'', ''x'', ''m''), (''t2'', JStr ''b'', ''y'', ''m'')]"
  have up: "[1..int (length ?calls)] = [1, 2]"
    by (simp add: upto_rec1)
  have empty: "load_conversations Absent = Inr (JList [])"
    by simp
  have few: "length ?calls \<le> 100"
    by simp
  from append_all_dense_ids [OF empty few] obtain f' h where
    "append_all Absent ?calls = Inr f'" "load_conversations f' = Inr (JList h)"
    "length h = length ?calls"
    "map (\<lambda>c. field c ''id'') h = map (\<lambda>i. Some (JInt i)) [1..int (length ?calls)]"
    "map (\<lambda>c. (field c ''prompt'', field c ''response'')) h
       = map (\<lambda>(stamp, p, r, m). (Some p, Some (JStr r))) ?calls"
    by blast
  then have "append_all Absent ?calls = Inr f' \<and> load_conversations f' = Inr (JList h)
      \<and> length h = 2
      \<and> map (\<lambda>c. field c ''id'') h = [Some (JInt 1), Some (JInt 2)]
      \<and> map (\<lambda>c. (field c ''prompt'', field c ''response'')) h
              = [(Some (JStr ''a''), Some (JStr ''x'')), (Some (JStr ''b''), Some (JStr ''y''))]"
    unfolding up by (simp del: append_all.simps)
  then have "\<exists>f' h. append_all Absent ?calls = Inr f' \<and> load_conversations f' = Inr (JList h)
      \<and> length h = 2
      \<and> map (\<lambda>c. field c ''id'') h = [Some (JInt 1), Some (JInt 2)]
      \<and> map (\<lambda>c. (field c ''prompt'', field c ''response'')) h
              = [(Some (JStr ''a''), Some (JStr ''x'')), (Some (JStr ''b''), Some (JStr ''y''))]"
    by (intro exI)
  with empty few show ?thesis
    by (intro conjI)
qed

text \<open>
  Claim C1. An append to a history of exactly 100 records, when its write goes through,
  leaves 100 records: the oldest is gone, the other 99 follow in their order with the new
  record last, every field but the id unchanged, and the ids are \<open>1..100\<close> in that
  order. The record returned is the last of the stored ones, and its id is 100, not the
  101 it was created with.
\<close>

theorem add_conversation_at_capacity:
  assumes load: "load_conversations f = Inr (JList h)"
    and full: "length h = 100"
    and records: "\<forall>c\<in>set h. is_dict c"
  shows "\<exists>h'. add_conversation Written t f p r m = Inr (Some (last h'), Holds (JList h'))
           \<and> h' = renumbered (tl h @ [new_conversation 100 t p r m])
           \<and> length h' = 100
           \<and> (\<forall>k<99. \<forall>key. key \<noteq> ''id'' \<longrightarrow> field (h' ! k) key = field (h ! Suc k) key)
           \<and> (\<forall>key. key \<noteq> ''id'' \<longrightarrow> field (h' ! 99) key = field (new_conversation 100 t p r m) key)
           \<and> map (\<lambda>c. field c ''id'') h' = map (\<lambda>i. Some (JInt i)) [1..100]
           \<and> field (last h') ''id'' = Some (JInt 100)"
proof -
  let ?c = "new_conversation 100 t p r m"
  let ?xs = "tl h @ [?c]"
  let ?h' = "renumbered ?xs"
  have len_xs: "length ?xs = 100" using full by simp
  have dicts_xs: "\<forall>c\<in>set ?xs. is_dict c"
    using records full by (auto dest: list.set_sel(2) [rotated])
  have nth_xs: "?xs ! k = h ! Suc k" if "k < 99" for k
    using that full by (simp add: nth_append nth_tl)
  have last_xs: "?xs ! 99 = ?c"
    using full by (simp add: nth_append)
  have "\<forall>c\<in>set (drop (length h - 99) h). is_dict c"
    using records by (meson in_set_dropD)
  then have "add_conversation Written t f p r m =
           Inr (Some (last (kept (h @ [new_conversation (length h) t p r m]))),
                Holds (JList (kept (h @ [new_conversation (length h) t p r m]))))"
    using add_conversation_written [OF load] by blast
  moreover have "kept (h @ [new_conversation (length h) t p r m]) = ?h'"
  proof -
    have "drop 1 (h @ [?c]) = tl h @ [?c]"
      using full by (cases h) simp_all
    moreover have "length (h @ [?c]) - 100 = 1"
      using full by simp
    ultimately show ?thesis
      using full kept_long [of "h @ [?c]"] by simp
  qed
  ultimately have run: "add_conversation Written t f p r m = Inr (Some (last ?h'), Holds (JList ?h'))"
    by simp
  have old: "field (?h' ! k) key = field (h ! Suc k) key" if "k < 99" "key \<noteq> ''id''" for k key
  proof -
    have "k < length ?xs" using that len_xs by simp
    then have "?xs ! k \<in> set ?xs" by (rule nth_mem)
    then have "is_dict (?xs ! k)" using dicts_xs by blast
    then show ?thesis
      using that len_xs nth_xs [of k] by (simp add: field_with_id)
  qed
  have new: "field (?h' ! 99) key = field ?c key" if "key \<noteq> ''id''" for key
    using that len_xs last_xs by (simp add: field_with_id)
  have ids: "map (\<lambda>c. field c ''id'') ?h' = map (\<lambda>i. Some (JInt i)) [1..100]"
    using ids_renumbered [OF dicts_xs] len_xs by simp
  have "last ?h' = ?h' ! 99"
    using len_xs by (intro last_nth) simp
  then have last_id: "field (last ?h') ''id'' = Some (JInt 100)"
    using len_xs last_xs by (simp add: field_with_id)
  show ?thesis
    using run len_xs old new ids last_id by (intro exI [of _ ?h']) simp
qed

theorem add_conversation_at_capacity_witness:
  "load_conversations (Holds (JList (replicate 100 (JDict [(''id'', JInt 7)]))))
     = Inr (JList (replicate 100 (JDict [(''id'', JInt 7)])))
   \<and> length (replicate 100 (JDict [(''id'', JInt 7)])) = 100
   \<and> (\<exists>h'. add_conversation Written ''2024-05-01T12:00:00''
              (Holds (JList (replicate 100 (JDict [(''id'', JInt 7)])))) (JStr ''Hi'') ''Hello!''
              ''llama3.2:3b'' = Inr (Some (last h'), Holds (JList h'))
         \<and> length h' = 100
         \<and> map (\<lambda>c. field c ''id'') h' = map (\<lambda>i. Some (JInt i)) [1..100]
         \<and> field (last h') ''id'' = Some (JInt 100)
         \<and> field (h' ! 99) ''prompt'' = Some (JStr ''Hi''))"
proof -
  let ?h = "replicate 100 (JDict [(''id'', JInt 7)])"
  have load: "load_conversations (Holds (JList ?h)) = Inr (JList ?h)"
    by simp
  have full: "length ?h = 100"
    by simp
  have records: "\<forall>c\<in>set ?h. is_dict c"
    by simp
  from add_conversation_at_capacity [OF load full records,
      of "''2024-05-01T12:00:00''" "JStr ''Hi''" "''Hello!''" "''llama3.2:3b''"]
  obtain h' where
    run: "add_conversation Written ''2024-05-01T12:00:00'' (Holds (JList ?h)) (JStr ''Hi'')
            ''Hello!'' ''llama3.2:3b'' = Inr (Some (last h'), Holds (JList h'))"
    and len: "length h' = 100"
    and new: "\<forall>key. key \<noteq> ''id'' \<longrightarrow> field (h' ! 99) key
            = field (new_conversation 100 ''2024-05-01T12:00:00'' (JStr ''Hi'') ''Hello!''
                ''llama3.2:3b'') key"
    and ids: "map (\<lambda>c. field c ''id'') h' = map (\<lambda>i. Some (JInt i)) [1..100]"
    and last_id: "field (last h') ''id'' = Some (JInt 100)"
    by blast
  from new have "field (h' ! 99) ''prompt'' = Some (JStr ''Hi'')"
    by simp
  with run len ids last_id have "\<exists>h'. add_conversation Written ''2024-05-01T12:00:00''
              (Holds (JList ?h)) (JStr ''Hi'') ''Hello!''
              ''llama3.2:3b'' = Inr (Some (last h'), Holds (JList h'))
         \<and> length h' = 100
         \<and> map (\<lambda>c. field c ''id'') h' = map (\<lambda>i. Some (JInt i)) [1..100]
         \<and> field (last h') ''id'' = Some (JInt 100)
         \<and> field (h' ! 99) ''prompt'' = Some (JStr ''Hi'')"
    by (intro exI [of _ h'] conjI)
  with load full show ?thesis
    by (intro conjI)
qed

section \<open>Properties of the readers and of the gateway\<close>

lemma slice_nonneg:
  "0 \<le> a \<Longrightarrow> 0 \<le> n \<Longrightarrow> slice xs (Some a) (Some (a + n)) = take (nat n) (drop (nat a) xs)"
  by (auto simp: slice_def slice_index_def Let_def min_def nat_add_distrib take_all_iff)

text \<open>
  Claim C8. On a history \<open>h\<close>, \<^verbatim>\<open>GET /conversations\<close> with a limit and an offset that
  are not negative answers with the records of \<open>h\<close> from position \<open>offset\<close> on, at most
  \<open>limit\<close> of them, and with the length of \<open>h\<close> as the total. A missing limit is 20, a
  missing offset is 0. With limit 1 and offset 1 on three records the answer holds the
  second record and the total 3.
\<close>

theorem get_conversations_page:
  assumes "load_conversations f = Inr (JList h)"
  shows "(0 \<le> limit \<and> 0 \<le> offset \<longrightarrow>
            get_conversations (Some limit) (Some offset) f =
              Inr (JDict [(''status'', JStr ''success''),
                          (''total'', JInt (int (length h))),
                          (''limit'', JInt limit),
                          (''offset'', JInt offset),
                          (''conversations'', JList (take (nat limit) (drop (nat offset) h)))], 200))
         \<and> get_conversations None offset_arg f = get_conversations (Some 20) offset_arg f
         \<and> get_conversations limit_arg None f = get_conversations limit_arg (Some 0) f
         \<and> get_conversations (Some 1) (Some 1) (Holds (JList [a, b, c])) =
              Inr (JDict [(''status'', JStr ''success''),
                          (''total'', JInt 3),
                          (''limit'', JInt 1),
                          (''offset'', JInt 1),
                          (''conversations'', JList [b])], 200)"
proof -
  have page: "get_conversations (Some l) (Some k) g =
              Inr (JDict [(''status'', JStr ''success''),
                          (''total'', JInt (int (length xs))),
                          (''limit'', JInt l),
                          (''offset'', JInt k),
                          (''conversations'', JList (take (nat l) (drop (nat k) xs)))], 200)"
    if "load_conversations g = Inr (JList xs)" "0 \<le> l" "0 \<le> k" for g xs l k
    using that by (simp add: get_conversations_def slice_nonneg)
  have "get_conversations (Some 1) (Some 1) (Holds (JList [a, b, c])) =
              Inr (JDict [(''status'', JStr ''success''),
                          (''total'', JInt 3),
                          (''limit'', JInt 1),
                          (''offset'', JInt 1),
                          (''conversations'', JList [b])], 200)"
    using page [of "Holds (JList [a, b, c])" "[a, b, c]" 1 1] by simp
  moreover have "get_conversations None offset_arg f = get_conversations (Some 20) offset_arg f"
    by (simp add: get_conversations_def split: sum.splits)
  moreover have "get_conversations limit_arg None f = get_conversations limit_arg (Some 0) f"
    by (simp add: get_conversations_def split: sum.splits)
  ultimately show ?thesis
    using page [OF assms] by simp
qed

theorem get_conversations_page_witness:
  "load_conversations (Holds (JList [JInt 10, JInt 20, JInt 30, JInt 40]))
     = Inr (JList [JInt 10, JInt 20, JInt 30, JInt 40])
   \<and> (0::int) \<le> 2 \<and> (0::int) \<le> 1
   \<and> get_conversations (Some 2) (Some 1) (Holds (JList [JInt 10, JInt 20, JInt 30, JInt 40])) =
         Inr (JDict [(''status'', JStr ''success''),
                     (''total'', JInt 4),
                     (''limit'', JInt 2),
                     (''offset'', JInt 1),
                     (''conversations'', JList [JInt 20, JInt 30])], 200)"
proof -
  have load: "load_conversations (Holds (JList [JInt 10, JInt 20, JInt 30, JInt 40]))
                = Inr (JList [JInt 10, JInt 20, JInt 30, JInt 40])"
    by simp
  have "take (nat 2) (drop (nat 1) [JInt 10, JInt 20, JInt 30, JInt 40]) = [JInt 20, JInt 30]"
    by (simp add: numeral_2_eq_2)
  with get_conversations_page [OF load, of 2 1] load show ?thesis
    by simp
qed

lemma generate_text_backend_raises:
  "read_prompt req = Inr p \<Longrightarrow> backend w p = PostRaises e \<Longrightarrow>
     generate_text w req f = ((error_body (str_exn e), 500), f, [p])"
  by (simp add: generate_text_def generate_try_def)

lemma generate_text_backend_status:
  "read_prompt req = Inr p \<Longrightarrow> backend w p = Responds sc body \<Longrightarrow> sc \<noteq> 200 \<Longrightarrow>
     generate_text w req f = ((error_body (''Ollama API error: '' @ str_int sc), 500), f, [p])"
  by (simp add: generate_text_def generate_try_def)

lemma generate_text_backend_garbled:
  "read_prompt req = Inr p \<Longrightarrow> backend w p = Responds 200 (Inl e) \<Longrightarrow>
     generate_text w req f = ((error_body (str_exn e), 500), f, [p])"
  by (simp add: generate_text_def generate_try_def)

lemma read_prompt_hi [simp]: "read_prompt hi_request = Inr (JStr ''Hi'')"
  by (simp add: read_prompt_def hi_request_def slice_def slice_index_def)

lemma read_prompt_absent:
  assumes "\<not> truthy body \<or> (\<exists>kv. body = JDict kv \<and> map_of kv ''prompt'' = None)"
  shows "read_prompt (Inr body) = Inr (JStr default_prompt)"
proof -
  have "py_get (if truthy body then body else JDict []) ''prompt'' (JStr default_prompt)
          = Inr (JStr default_prompt)"
    using assms by auto
  then show ?thesis
    by (simp add: read_prompt_def Let_def)
qed

lemma read_prompt_str:
  "map_of kv ''prompt'' = Some (JStr s) \<Longrightarrow> read_prompt (Inr (JDict kv)) = Inr (JStr s)"
  by (auto simp: read_prompt_def Let_def)

lemma calls_generate_text:
  "read_prompt req = Inr p \<Longrightarrow> snd (snd (generate_text w req f)) = [p]"
  by (simp add: generate_text_def generate_try_def
      split: backend_outcome.splits sum.splits prod.splits)

text \<open>
  Claim C5, as stated, fails: a request whose prompt is the empty string has the key
  \<open>prompt\<close>, so \<^verbatim>\<open>data.get\<close> returns the empty string and the backend is called
  with it, not with the default prompt.
\<close>

theorem generate_text_empty_prompt_sent:
  "snd (snd (generate_text hello_env (Inr (JDict [(''prompt'', JStr [])])) Absent)) = [JStr []]
   \<and> [JStr []] \<noteq> [JStr default_prompt]"
proof -
  have "read_prompt (Inr (JDict [(''prompt'', JStr [])])) = Inr (JStr [])"
    by (simp add: read_prompt_str)
  then show ?thesis
    by (simp add: calls_generate_text default_prompt_def)
qed

lemma strip_Nil [simp]: "strip [] = []"
  by (simp add: strip_def)

lemma dict_set_not_Nil [simp]: "dict_set kv key v \<noteq> []"
  by (induction kv key v rule: dict_set.induct) auto

lemma truthy_with_id: "is_dict c \<Longrightarrow> truthy (with_id c i)"
  by (cases c) simp_all

lemma py_getitem_field: "is_dict c \<Longrightarrow> field c key = Some v \<Longrightarrow> py_getitem c key = Inr v"
  by (cases c) (simp_all add: field_def)

lemma last_kept:
  "last (kept (h @ [new_conversation (length h) t p r m])) =
     (if length h < 100 then new_conversation (length h) t p r m
      else with_id (new_conversation (length h) t p r m) 100)"
proof (cases "length h < 100")
  case True
  then show ?thesis by simp
next
  case False
  let ?c = "new_conversation (length h) t p r m"
  let ?xs = "drop (length h - 99) (h @ [?c])"
  have len: "length ?xs = Suc 99" using False by simp
  have "length (h @ [?c]) - 100 = length h - 99" using False by simp
  then have k: "kept (h @ [?c]) = renumbered ?xs"
    using False kept_long [of "h @ [?c]"] by simp
  have "?xs ! 99 = (h @ [?c]) ! (length h - 99 + 99)"
    using False by (intro nth_drop) simp
  also have "\<dots> = ?c" using False by simp
  finally have at: "?xs ! 99 = ?c" .
  have "length (renumbered ?xs) = Suc 99" using len by simp
  then have "last (renumbered ?xs) = renumbered ?xs ! 99" by (rule last_nth)
  also have "\<dots> = with_id (?xs ! 99) (int 99 + 1)"
    using len by (intro nth_renumbered) simp
  finally show ?thesis
    using False k at by simp
qed

lemma conversation_id_last_kept:
  "conversation_id (Some (last (kept (h @ [new_conversation (length h) t p r m]))))
     = Inr (JInt (if length h < 100 then int (length h) + 1 else 100))"
proof -
  let ?c = "new_conversation (length h) t p r m"
  have "truthy ?c" by (simp add: new_conversation_def)
  moreover have "py_getitem ?c ''id'' = Inr (JInt (int (length h) + 1))"
    by (simp add: py_getitem_field)
  moreover have "py_getitem (with_id ?c 100) ''id'' = Inr (JInt 100)"
    by (simp add: py_getitem_field field_with_id)
  moreover have "truthy (with_id ?c 100)"
    by (simp add: truthy_with_id)
  ultimately show ?thesis
    by (simp add: conversation_id_def last_kept)
qed

lemma field_last_kept:
  "key \<noteq> ''id'' \<Longrightarrow>
     field (last (kept (h @ [new_conversation (length h) t p r m]))) key
       = field (new_conversation (length h) t p r m) key"
  by (simp add: last_kept field_with_id)

lemma id_last_kept:
  "field (last (kept (h @ [new_conversation (length h) t p r m]))) ''id''
     = Some (JInt (if length h < 100 then int (length h) + 1 else 100))"
  by (simp add: last_kept field_with_id)

lemma length_kept: "length (kept xs) = min (length xs) 100"
  by (simp add: kept_def)

lemma kept_not_Nil [simp]: "kept (h @ [c]) \<noteq> []"
  using length_kept [of "h @ [c]"] by auto

lemma generate_text_stores:
  assumes prompt: "read_prompt req = Inr p"
    and answer: "backend w p = Responds 200 (Inr result)"
    and reply: "py_get result ''response'' (JStr []) = Inr (JStr s)"
    and load: "load_conversations f = Inr (JList h)"
    and dicts: "100 \<le> length h \<Longrightarrow> \<forall>c\<in>set (drop (length h - 99) h). is_dict c"
    and written: "write w = Written"
  shows "generate_text w req f =
           ((success_body (strip s) (model_name w)
               (JInt (if length h < 100 then int (length h) + 1 else 100)), 200),
            Holds (JList (kept (h @ [new_conversation (length h) (now w) p (strip s) (model_name w)]))),
            [p])"
proof -
  have "add_conversation (write w) (now w) f p (strip s) (model_name w) =
          Inr (Some (last (kept (h @ [new_conversation (length h) (now w) p (strip s) (model_name w)]))),
               Holds (JList (kept (h @ [new_conversation (length h) (now w) p (strip s) (model_name w)]))))"
    unfolding written using load dicts by (rule add_conversation_written)
  then show ?thesis
    by (simp add: generate_text_def generate_try_def prompt answer reply conversation_id_last_kept)
qed


section \<open>What the service keeps true of its file\<close>

lemma strip_idem [simp]: "strip (strip s) = strip s"
proof -
  define u where "u = dropWhile is_space s"
  define v where "v = dropWhile is_space (rev u)"
  have v_idem: "dropWhile is_space v = v"
    by (simp add: v_def)
  have "dropWhile is_space (rev v) = rev v"
  proof (cases "rev v")
    case Nil
    then show ?thesis by simp
  next
    case (Cons x xs)
    have "rev v = take (length (rev v)) u"
    proof -
      have "rev u = takeWhile is_space (rev u) @ v"
        by (simp add: v_def)
      then have "u = rev v @ rev (takeWhile is_space (rev u))"
        by (metis rev_append rev_rev_ident)
      then show ?thesis
        by (metis append_eq_conv_conj)
    qed
    then have "hd (rev v) = hd u" and "u \<noteq> []"
      using Cons by (metis hd_take length_greater_0_conv list.distinct(1) take_eq_Nil)+
    moreover have "\<not> is_space (hd u)"
      using \<open>u \<noteq> []\<close> unfolding u_def by (rule hd_dropWhile)
    ultimately have "\<not> is_space x"
      using Cons by simp
    then show ?thesis
      using Cons by simp
  qed
  then show ?thesis
    by (simp add: strip_def u_def [symmetric] v_def [symmetric] v_idem)
qed

lemma consistent_new_conversation: "strip r = r \<Longrightarrow> consistent (new_conversation n t p r m)"
  by (simp add: consistent_def)

lemma consistent_with_id: "is_dict c \<Longrightarrow> consistent (with_id c i) = consistent c"
  by (simp add: consistent_def field_with_id split: option.splits json.splits)

lemma history_inv_Nil [simp]: "history_inv []"
  by (simp add: history_inv_def dense_ids_def)

lemma history_inv_renumbered:
  assumes "length xs \<le> 100" and "\<forall>c\<in>set xs. is_dict c \<and> consistent c"
  shows "history_inv (renumbered xs)"
proof -
  have "is_dict (renumbered xs ! k) \<and> consistent (renumbered xs ! k)" if "k < length xs" for k
    using that assms(2) by (simp add: consistent_with_id)
  then have "list_all is_dict (renumbered xs)" and "list_all consistent (renumbered xs)"
    by (simp_all add: list_all_length)
  moreover have "dense_ids (renumbered xs)"
    using assms(2) by (simp add: dense_ids_def ids_renumbered)
  ultimately show ?thesis
    using assms(1) by (simp add: history_inv_def)
qed

lemma history_inv_kept:
  assumes inv: "history_inv h" and trimmed: "strip r = r"
  shows "history_inv (kept (h @ [new_conversation (length h) t p r m]))"
proof (cases "length h < 100")
  case True
  let ?c = "new_conversation (length h) t p r m"
  have "[1..int (length (h @ [?c]))] = [1..int (length h)] @ [int (length h) + 1]"
    by (subst upto_rec2) simp_all
  then have "dense_ids (h @ [?c])"
    using inv by (simp add: history_inv_def dense_ids_def)
  then show ?thesis
    using True inv trimmed by (simp add: history_inv_def consistent_new_conversation)
next
  case False
  let ?c = "new_conversation (length h) t p r m"
  let ?xs = "drop (length (h @ [?c]) - 100) (h @ [?c])"
  have "\<forall>c\<in>set (h @ [?c]). is_dict c \<and> consistent c"
    using inv trimmed by (auto simp: history_inv_def list_all_iff consistent_new_conversation)
  then have "\<forall>c\<in>set ?xs. is_dict c \<and> consistent c"
    by (meson in_set_dropD)
  moreover have "length ?xs \<le> 100"
    using False by simp
  ultimately have "history_inv (renumbered ?xs)"
    by (rule history_inv_renumbered [rotated])
  then show ?thesis
    using False kept_long [of "h @ [?c]"] by simp
qed

lemma file_invE:
  assumes "file_inv f"
  obtains h where "load_conversations f = Inr (JList h)" and "history_inv h"
  using assms by (auto simp: file_inv_def split: sum.splits json.splits)

lemma file_inv_Absent [simp]: "file_inv Absent"
  by (simp add: file_inv_def)

lemma add_conversation_inv:
  assumes inv: "file_inv f" and trimmed: "strip r = r"
    and run: "add_conversation w t f p r m = Inr (c, f')"
  shows "file_inv f'"
proof -
  from inv obtain h where load: "load_conversations f = Inr (JList h)" and h: "history_inv h"
    by (rule file_invE)
  have "\<forall>c\<in>set (drop (length h - 99) h). is_dict c"
    using h by (auto simp: history_inv_def list_all_iff dest: in_set_dropD)
  then have eq: "add_conversation w t f p r m =
           (case save_conversations w (JList (kept (h @ [new_conversation (length h) t p r m]))) f of
              (True, f') \<Rightarrow> Inr (Some (last (kept (h @ [new_conversation (length h) t p r m]))), f')
            | (False, f') \<Rightarrow> Inr (None, f'))"
    using add_conversation_list [OF load] by blast
  show ?thesis
  proof (cases w)
    case Written
    then have "f' = Holds (JList (kept (h @ [new_conversation (length h) t p r m])))"
      using eq run by simp
    then show ?thesis
      using history_inv_kept [OF h trimmed] by (simp add: file_inv_def)
  next
    case (OpenRaises e)
    then have "f' = f" using eq run by simp
    then show ?thesis using inv by simp
  next
    case (DumpRaises e)
    then have "f' = Malformed (LibraryError ''Expecting value'')" using eq run by simp
    then show ?thesis by (simp add: file_inv_def)
  qed
qed

lemma py_strip_stripped: "py_strip v = Inr g \<Longrightarrow> \<exists>s. g = strip s"
  by (cases v) auto

lemma generate_try_file:
  assumes "generate_try w req f = (outcome, f', calls)"
  shows "f' = f \<or> (\<exists>p s c. add_conversation (write w) (now w) f p (strip s) (model_name w) = Inr (c, f'))"
proof (cases "read_prompt req")
  case (Inl e)
  then show ?thesis using assms by (simp add: generate_try_def)
next
  case prompt: (Inr p)
  show ?thesis
  proof (cases "backend w p")
    case (PostRaises e)
    then show ?thesis using assms prompt by (simp add: generate_try_def)
  next
    case (Responds sc body)
    show ?thesis
    proof (cases "sc = 200")
      case False
      then show ?thesis using assms prompt Responds by (simp add: generate_try_def)
    next
      case True
      show ?thesis
      proof (cases body)
        case (Inl e)
        then show ?thesis using assms prompt Responds True by (simp add: generate_try_def)
      next
        case result: (Inr result)
        show ?thesis
        proof (cases "py_get result ''response'' (JStr [])")
          case (Inl e)
          then show ?thesis
            using assms prompt Responds True result by (simp add: generate_try_def)
        next
          case reply: (Inr v)
          show ?thesis
          proof (cases "py_strip v")
            case (Inl e)
            then show ?thesis
              using assms prompt Responds True result reply by (simp add: generate_try_def)
          next
            case stripped: (Inr g)
            then obtain s where g: "g = strip s"
              using py_strip_stripped by blast
            show ?thesis
            proof (cases "add_conversation (write w) (now w) f p g (model_name w)")
              case (Inl e)
              then show ?thesis
                using assms prompt Responds True result reply stripped
                by (simp add: generate_try_def)
            next
              case (Inr r)
              obtain c f'' where r: "r = (c, f'')" by (cases r)
              have "f' = f''"
                using assms prompt Responds True result reply stripped Inr r
                by (cases "conversation_id c") (simp_all add: generate_try_def)
              then show ?thesis
                using Inr r g by blast
            qed
          qed
        qed
      qed
    qed
  qed
qed

lemma generate_text_inv:
  assumes "file_inv f"
  shows "file_inv (fst (snd (generate_text w req f)))"
proof -
  obtain outcome f' calls where run: "generate_try w req f = (outcome, f', calls)"
    by (cases "generate_try w req f") auto
  then have same: "fst (snd (generate_text w req f)) = f'"
    by (cases outcome) (simp_all add: generate_text_def)
  from generate_try_file [OF run] have "file_inv f'"
  proof
    assume "f' = f"
    then show ?thesis using assms by simp
  next
    assume "\<exists>p s c. add_conversation (write w) (now w) f p (strip s) (model_name w) = Inr (c, f')"
    then obtain p s c where
      run: "add_conversation (write w) (now w) f p (strip s) (model_name w) = Inr (c, f')"
      by blast
    have "strip (strip s) = strip s"
      by simp
    with assms show ?thesis
      using run by (rule add_conversation_inv)
  qed
  then show ?thesis
    by (simp add: same)
qed

lemma serve_inv: "file_inv f \<Longrightarrow> file_inv (serve f reqs)"
proof (induction reqs arbitrary: f)
  case Nil
  then show ?case by simp
next
  case (Cons x reqs)
  obtain w req where "x = (w, req)" by (cases x)
  then show ?case
    using Cons by (simp add: generate_text_inv)
qed

lemma strip_prefix:
  "dropWhile is_space s = strip s @ rev (takeWhile is_space (rev (dropWhile is_space s)))"
proof -
  define u where "u = dropWhile is_space s"
  have "rev u = takeWhile is_space (rev u) @ dropWhile is_space (rev u)"
    by simp
  then have "u = rev (dropWhile is_space (rev u)) @ rev (takeWhile is_space (rev u))"
    by (metis rev_append rev_rev_ident)
  then show ?thesis
    by (simp add: strip_def u_def)
qed

lemma strip_trims:
  "\<exists>a b. s = a @ strip s @ b \<and> list_all is_space a \<and> list_all is_space b"
proof -
  let ?b = "rev (takeWhile is_space (rev (dropWhile is_space s)))"
  have "s = takeWhile is_space s @ dropWhile is_space s"
    by simp
  then have "s = takeWhile is_space s @ strip s @ ?b"
    using strip_prefix [of s] by simp
  moreover have "list_all is_space (takeWhile is_space s)"
    by (auto simp: list_all_iff dest: set_takeWhileD)
  moreover have "list_all is_space ?b"
    by (auto simp: list_all_iff dest: set_takeWhileD)
  ultimately show ?thesis
    by blast
qed

lemma strip_ends:
  assumes "strip s \<noteq> []"
  shows "\<not> is_space (hd (strip s)) \<and> \<not> is_space (last (strip s))"
proof -
  have "hd (dropWhile is_space s) = hd (strip s)"
    using assms by (subst strip_prefix) simp
  moreover have "dropWhile is_space s \<noteq> []"
    using assms strip_prefix [of s] by (metis append_is_Nil_conv)
  ultimately have first: "\<not> is_space (hd (strip s))"
    by (metis hd_dropWhile)
  have "rev (strip s) = dropWhile is_space (rev (dropWhile is_space s))"
    by (simp add: strip_def)
  moreover have "rev (strip s) \<noteq> []"
    using assms by simp
  ultimately have "\<not> is_space (hd (rev (strip s)))"
    by (metis hd_dropWhile)
  then have "\<not> is_space (last (strip s))"
    using assms by (simp add: hd_rev)
  with first show ?thesis
    by simp
qed

lemma dense_ids_nth:
  assumes "dense_ids h" and "k < length h"
  shows "field (h ! k) ''id'' = Some (JInt (int k + 1))"
proof -
  have "map (\<lambda>c. field c ''id'') h ! k = map (\<lambda>i. Some (JInt i)) [1..int (length h)] ! k"
    using assms(1) by (simp add: dense_ids_def)
  then show ?thesis
    using assms(2) by (simp add: nth_upto add.commute)
qed

lemma find_conversation_dense:
  assumes "\<forall>j<length xs. is_dict (xs ! j) \<and> field (xs ! j) ''id'' = Some (JInt (int n + int j + 1))"
  shows "find_conversation xs cid =
           Inr (if int n < cid \<and> cid \<le> int n + int (length xs)
                then Some (xs ! nat (cid - int n - 1)) else None)"
  using assms
proof (induction xs arbitrary: n)
  case Nil
  then show ?case by auto
next
  case (Cons x xs)
  from Cons.prems have "is_dict x \<and> field x ''id'' = Some (JInt (int n + 1))"
    by fastforce
  then have x: "py_getitem x ''id'' = Inr (JInt (int n + 1))"
    by (simp add: py_getitem_field)
  have rest: "\<forall>j<length xs. is_dict (xs ! j) \<and> field (xs ! j) ''id'' = Some (JInt (int (Suc n) + int j + 1))"
  proof (intro allI impI)
    fix j assume "j < length xs"
    then have "Suc j < length (x # xs)" by simp
    with Cons.prems have "is_dict ((x # xs) ! Suc j)
        \<and> field ((x # xs) ! Suc j) ''id'' = Some (JInt (int n + int (Suc j) + 1))"
      by blast
    then show "is_dict (xs ! j) \<and> field (xs ! j) ''id'' = Some (JInt (int (Suc n) + int j + 1))"
      by (simp add: add.commute add.left_commute)
  qed
  show ?case
  proof (cases "cid = int n + 1")
    case True
    then show ?thesis by (simp add: x)
  next
    case False
    have "nat (cid - int n - 1) = Suc (nat (cid - int (Suc n) - 1))" if "int n < cid"
      using that False by simp
    then show ?thesis
      using False Cons.IH [OF rest] by (auto simp: x)
  qed
qed

lemma hello_once:
  "generate_text hello_env hi_request Absent =
     ((JDict [(''status'', JStr ''success''),
              (''generated_text'', JStr ''Hello!''),
              (''model'', JStr ''llama3.2:3b''),
              (''conversation_id'', JInt 1)], 200),
      Holds (JList [JDict [(''id'', JInt 1),
                           (''timestamp'', JStr ''2024-05-01T12:00:00''),
                           (''prompt'', JStr ''Hi''),
                           (''response'', JStr ''Hello!''),
                           (''model'', JStr ''llama3.2:3b''),
                           (''response_length'', JInt 6)]]),
      [JStr ''Hi''])"
proof -
  have answer: "backend hello_env (JStr ''Hi'')
                  = Responds 200 (Inr (JDict [(''response'', JStr '' Hello! '')]))"
    by (simp add: hello_env_def)
  have reply: "py_get (JDict [(''response'', JStr '' Hello! '')]) ''response'' (JStr [])
                 = Inr (JStr '' Hello! '')"
    by simp
  have trimmed: "strip '' Hello! '' = ''Hello!''"
    by (simp add: strip_def is_space_def)
  have load: "load_conversations Absent = Inr (JList [])"
    by simp
  have written: "write hello_env = Written"
    by (simp add: hello_env_def)
  show ?thesis
    using generate_text_stores [OF read_prompt_hi answer reply load _ written]
    by (simp add: trimmed success_body_def new_conversation_def hello_env_def)
qed

lemma served_history:
  "\<exists>h. load_conversations (serve Absent reqs) = Inr (JList h) \<and> history_inv h"
  using serve_inv [of Absent reqs] by (auto elim: file_invE)

lemma consistentE:
  assumes "consistent c"
  obtains s where "field c ''response'' = Some (JStr s)"
    and "field c ''response_length'' = Some (JInt (int (length s)))" and "strip s = s"
  using assms by (auto simp: consistent_def split: option.splits json.splits)

text \<open>
  Claim C6. In every file the service reaches from a missing one, each record has a
  \<open>response_length\<close> equal to the number of characters of its \<open>response\<close>. When the
  backend answers 200 with the text \<open>s\<close> and the write goes through, the record stored
  last holds \<open>strip s\<close> and its length, and \<open>strip s\<close> is \<open>s\<close> without the white space
  at its two ends. The prompt \<open>Hi\<close> against a backend that answers \<open>" Hello! "\<close>, on
  an empty history, stores \<open>Hello!\<close> with the length 6 and the id 1.
\<close>

theorem stored_response_trimmed_and_counted:
  "(load_conversations (serve Absent reqs) = Inr (JList h) \<and> c \<in> set h \<longrightarrow>
      (\<exists>s. field c ''response'' = Some (JStr s)
          \<and> field c ''response_length'' = Some (JInt (int (length s)))))
   \<and> (read_prompt req = Inr p \<and> backend w p = Responds 200 (Inr result)
        \<and> py_get result ''response'' (JStr []) = Inr (JStr s) \<and> write w = Written \<longrightarrow>
      (\<exists>cid h'. generate_text w req (serve Absent reqs) =
           ((success_body (strip s) (model_name w) (JInt cid), 200), Holds (JList h'), [p])
         \<and> h' \<noteq> []
         \<and> field (last h') ''response'' = Some (JStr (strip s))
         \<and> field (last h') ''response_length'' = Some (JInt (int (length (strip s))))
         \<and> field (last h') ''id'' = Some (JInt cid))
      \<and> (\<exists>a b. s = a @ strip s @ b \<and> list_all is_space a \<and> list_all is_space b)
      \<and> (strip s = [] \<or> \<not> is_space (hd (strip s)) \<and> \<not> is_space (last (strip s))))
   \<and> generate_text hello_env hi_request Absent =
       ((JDict [(''status'', JStr ''success''),
                (''generated_text'', JStr ''Hello!''),
                (''model'', JStr ''llama3.2:3b''),
                (''conversation_id'', JInt 1)], 200),
        Holds (JList [JDict [(''id'', JInt 1),
                             (''timestamp'', JStr ''2024-05-01T12:00:00''),
                             (''prompt'', JStr ''Hi''),
                             (''response'', JStr ''Hello!''),
                             (''model'', JStr ''llama3.2:3b''),
                             (''response_length'', JInt 6)]]),
        [JStr ''Hi''])"
proof (intro conjI impI)
  assume "load_conversations (serve Absent reqs) = Inr (JList h) \<and> c \<in> set h"
  moreover obtain h0 where "load_conversations (serve Absent reqs) = Inr (JList h0)" "history_inv h0"
    using served_history by blast
  ultimately have "consistent c"
    by (auto simp: history_inv_def list_all_iff)
  then show "\<exists>s. field c ''response'' = Some (JStr s)
          \<and> field c ''response_length'' = Some (JInt (int (length s)))"
    by (auto elim: consistentE)
next
  assume run: "read_prompt req = Inr p \<and> backend w p = Responds 200 (Inr result)
        \<and> py_get result ''response'' (JStr []) = Inr (JStr s) \<and> write w = Written"
  obtain h0 where load: "load_conversations (serve Absent reqs) = Inr (JList h0)"
    and inv: "history_inv h0"
    using served_history by blast
  let ?h' = "kept (h0 @ [new_conversation (length h0) (now w) p (strip s) (model_name w)])"
  let ?cid = "if length h0 < 100 then int (length h0) + 1 else 100"
  have dicts: "100 \<le> length h0 \<Longrightarrow> \<forall>c\<in>set (drop (length h0 - 99) h0). is_dict c"
    using inv by (auto simp: history_inv_def list_all_iff dest: in_set_dropD)
  have "generate_text w req (serve Absent reqs) =
          ((success_body (strip s) (model_name w) (JInt ?cid), 200), Holds (JList ?h'), [p])"
    using run generate_text_stores [OF _ _ _ load dicts] by blast
  moreover have "?h' \<noteq> []"
    by simp
  moreover have "field (last ?h') ''response'' = Some (JStr (strip s))"
    by (simp add: field_last_kept)
  moreover have "field (last ?h') ''response_length'' = Some (JInt (int (length (strip s))))"
    by (simp add: field_last_kept)
  moreover have "field (last ?h') ''id'' = Some (JInt ?cid)"
    by (rule id_last_kept)
  ultimately show "\<exists>cid h'. generate_text w req (serve Absent reqs) =
           ((success_body (strip s) (model_name w) (JInt cid), 200), Holds (JList h'), [p])
         \<and> h' \<noteq> []
         \<and> field (last h') ''response'' = Some (JStr (strip s))
         \<and> field (last h') ''response_length'' = Some (JInt (int (length (strip s))))
         \<and> field (last h') ''id'' = Some (JInt cid)"
    by blast
next
  show "\<exists>a b. s = a @ strip s @ b \<and> list_all is_space a \<and> list_all is_space b"
    by (rule strip_trims)
next
  show "strip s = [] \<or> \<not> is_space (hd (strip s)) \<and> \<not> is_space (last (strip s))"
    using strip_ends by blast
next
  show "generate_text hello_env hi_request Absent =
       ((JDict [(''status'', JStr ''success''),
                (''generated_text'', JStr ''Hello!''),
                (''model'', JStr ''llama3.2:3b''),
                (''conversation_id'', JInt 1)], 200),
        Holds (JList [JDict [(''id'', JInt 1),
                             (''timestamp'', JStr ''2024-05-01T12:00:00''),
                             (''prompt'', JStr ''Hi''),
                             (''response'', JStr ''Hello!''),
                             (''model'', JStr ''llama3.2:3b''),
                             (''response_length'', JInt 6)]]),
        [JStr ''Hi''])"
    by (rule hello_once)
qed

lemma serve_hello_once:
  "serve Absent [(hello_env, hi_request)] =
     Holds (JList [JDict [(''id'', JInt 1),
                          (''timestamp'', JStr ''2024-05-01T12:00:00''),
                          (''prompt'', JStr ''Hi''),
                          (''response'', JStr ''Hello!''),
                          (''model'', JStr ''llama3.2:3b''),
                          (''response_length'', JInt 6)]])"
  by (simp add: hello_once)

theorem stored_response_trimmed_and_counted_witness:
  "load_conversations (serve Absent [(hello_env, hi_request)]) =
     Inr (JList [JDict [(''id'', JInt 1),
                        (''timestamp'', JStr ''2024-05-01T12:00:00''),
                        (''prompt'', JStr ''Hi''),
                        (''response'', JStr ''Hello!''),
                        (''model'', JStr ''llama3.2:3b''),
                        (''response_length'', JInt 6)]])
   \<and> (\<exists>s. field (JDict [(''id'', JInt 1),
                        (''timestamp'', JStr ''2024-05-01T12:00:00''),
                        (''prompt'', JStr ''Hi''),
                        (''response'', JStr ''Hello!''),
                        (''model'', JStr ''llama3.2:3b''),
                        (''response_length'', JInt 6)]) ''response'' = Some (JStr s)
          \<and> field (JDict [(''id'', JInt 1),
                        (''timestamp'', JStr ''2024-05-01T12:00:00''),
                        (''prompt'', JStr ''Hi''),
                        (''response'', JStr ''Hello!''),
                        (''model'', JStr ''llama3.2:3b''),
                        (''response_length'', JInt 6)]) ''response_length''
              = Some (JInt (int (length s))))
   \<and> read_prompt hi_request = Inr (JStr ''Hi'')
   \<and> backend hello_env (JStr ''Hi'') = Responds 200 (Inr (JDict [(''response'', JStr '' Hello! '')]))
   \<and> write hello_env = Written
   \<and> (\<exists>cid h'. generate_text hello_env hi_request (serve Absent [(hello_env, hi_request)]) =
           ((success_body ''Hello!'' ''llama3.2:3b'' (JInt cid), 200), Holds (JList h'), [JStr ''Hi''])
         \<and> h' \<noteq> []
         \<and> field (last h') ''response'' = Some (JStr ''Hello!'')
         \<and> field (last h') ''response_length'' = Some (JInt 6)
         \<and> field (last h') ''id'' = Some (JInt cid))"
proof -
  let ?rec = "JDict [(''id'', JInt 1),
                        (''timestamp'', JStr ''2024-05-01T12:00:00''),
                        (''prompt'', JStr ''Hi''),
                        (''response'', JStr ''Hello!''),
                        (''model'', JStr ''llama3.2:3b''),
                        (''response_length'', JInt 6)]"
  have load: "load_conversations (serve Absent [(hello_env, hi_request)]) = Inr (JList [?rec])"
    by (simp only: serve_hello_once load_conversations_simps)
  have member: "?rec \<in> set [?rec]"
    by simp
  have answer: "backend hello_env (JStr ''Hi'')
                  = Responds 200 (Inr (JDict [(''response'', JStr '' Hello! '')]))"
    by (simp add: hello_env_def)
  have reply: "py_get (JDict [(''response'', JStr '' Hello! '')]) ''response'' (JStr [])
                 = Inr (JStr '' Hello! '')"
    by simp
  have trimmed: "strip '' Hello! '' = ''Hello!''"
    by (simp add: strip_def is_space_def)
  have written: "write hello_env = Written"
    by (simp add: hello_env_def)
  have name: "model_name hello_env = ''llama3.2:3b''"
    by (simp add: hello_env_def)
  note claim = stored_response_trimmed_and_counted
    [where reqs = "[(hello_env, hi_request)]" and h = "[?rec]" and c = ?rec
       and req = hi_request and p = "JStr ''Hi''" and w = hello_env
       and result = "JDict [(''response'', JStr '' Hello! '')]" and s = "'' Hello! ''"]
  from claim load member
  have one: "\<exists>s. field ?rec ''response'' = Some (JStr s)
          \<and> field ?rec ''response_length'' = Some (JInt (int (length s)))"
    by blast
  from claim read_prompt_hi answer reply written
  have "\<exists>cid h'. generate_text hello_env hi_request (serve Absent [(hello_env, hi_request)]) =
           ((success_body (strip '' Hello! '') (model_name hello_env) (JInt cid), 200),
            Holds (JList h'), [JStr ''Hi''])
         \<and> h' \<noteq> []
         \<and> field (last h') ''response'' = Some (JStr (strip '' Hello! ''))
         \<and> field (last h') ''response_length'' = Some (JInt (int (length (strip '' Hello! ''))))
         \<and> field (last h') ''id'' = Some (JInt cid)"
    by blast
  then have two: "\<exists>cid h'. generate_text hello_env hi_request (serve Absent [(hello_env, hi_request)]) =
           ((success_body ''Hello!'' ''llama3.2:3b'' (JInt cid), 200), Holds (JList h'), [JStr ''Hi''])
         \<and> h' \<noteq> []
         \<and> field (last h') ''response'' = Some (JStr ''Hello!'')
         \<and> field (last h') ''response_length'' = Some (JInt 6)
         \<and> field (last h') ''id'' = Some (JInt cid)"
    by (simp only: trimmed name) simp
  from load one read_prompt_hi answer written two show ?thesis
    by (intro conjI)
qed

text \<open>
  Claim C7. Let \<open>h\<close> be the history in a file the service has reached from a missing
  one. For an id in \<open>1..length h\<close>, \<^verbatim>\<open>GET /conversations/{id}\<close> answers with the
  record at position \<open>id - 1\<close>, whose id field is the requested id, and no other record
  of \<open>h\<close> has that id. For an id outside \<open>1..length h\<close> it answers with the not-found
  error and status 404.
\<close>

theorem get_conversation_by_id:
  "\<exists>h. load_conversations (serve Absent reqs) = Inr (JList h)
     \<and> (1 \<le> cid \<and> cid \<le> int (length h) \<longrightarrow>
          get_conversation cid (serve Absent reqs) =
            Inr (JDict [(''status'', JStr ''success''),
                        (''conversation'', h ! nat (cid - 1))], 200)
          \<and> field (h ! nat (cid - 1)) ''id'' = Some (JInt cid)
          \<and> (\<forall>k<length h. field (h ! k) ''id'' = Some (JInt cid) \<longrightarrow> k = nat (cid - 1)))
     \<and> (cid < 1 \<or> int (length h) < cid \<longrightarrow>
          get_conversation cid (serve Absent reqs) =
            Inr (error_body (''Conversation #'' @ str_int cid @ '' not found''), 404))"
proof -
  obtain h where load: "load_conversations (serve Absent reqs) = Inr (JList h)"
    and inv: "history_inv h"
    using served_history by blast
  have dense: "dense_ids h" and dicts: "\<forall>c\<in>set h. is_dict c"
    using inv by (simp_all add: history_inv_def list_all_iff)
  have ids: "field (h ! k) ''id'' = Some (JInt (int k + 1))" if "k < length h" for k
    using dense that by (rule dense_ids_nth)
  have "\<forall>j<length h. is_dict (h ! j) \<and> field (h ! j) ''id'' = Some (JInt (int 0 + int j + 1))"
    using ids dicts by simp
  then have find: "find_conversation h cid =
           Inr (if int 0 < cid \<and> cid \<le> int 0 + int (length h)
                then Some (h ! nat (cid - int 0 - 1)) else None)"
    by (rule find_conversation_dense)
  have found: "get_conversation cid (serve Absent reqs) =
            Inr (JDict [(''status'', JStr ''success''),
                        (''conversation'', h ! nat (cid - 1))], 200)"
    if "1 \<le> cid" "cid \<le> int (length h)"
    using that find by (simp add: get_conversation_def load)
  have this_id: "field (h ! nat (cid - 1)) ''id'' = Some (JInt cid)"
    if "1 \<le> cid" "cid \<le> int (length h)"
    using that ids [of "nat (cid - 1)"] by simp
  have only: "k = nat (cid - 1)" if "k < length h" "field (h ! k) ''id'' = Some (JInt cid)" for k
    using that ids [of k] by simp
  have missing: "get_conversation cid (serve Absent reqs) =
            Inr (error_body (''Conversation #'' @ str_int cid @ '' not found''), 404)"
    if "cid < 1 \<or> int (length h) < cid"
    using that find by (auto simp: get_conversation_def load)
  show ?thesis
    using load found this_id only missing by blast
qed

theorem get_conversation_by_id_witness:
  "get_conversation 1 (serve Absent [(hello_env, hi_request)]) =
     Inr (JDict [(''status'', JStr ''success''),
                 (''conversation'',
                  JDict [(''id'', JInt 1),
                         (''timestamp'', JStr ''2024-05-01T12:00:00''),
                         (''prompt'', JStr ''Hi''),
                         (''response'', JStr ''Hello!''),
                         (''model'', JStr ''llama3.2:3b''),
                         (''response_length'', JInt 6)])], 200)
   \<and> get_conversation 2 (serve Absent [(hello_env, hi_request)]) =
     Inr (JDict [(''status'', JStr ''error''),
                 (''message'', JStr ''Conversation #2 not found'')], 404)"
proof -
  let ?rec = "JDict [(''id'', JInt 1),
                        (''timestamp'', JStr ''2024-05-01T12:00:00''),
                        (''prompt'', JStr ''Hi''),
                        (''response'', JStr ''Hello!''),
                        (''model'', JStr ''llama3.2:3b''),
                        (''response_length'', JInt 6)]"
  let ?file = "serve Absent [(hello_env, hi_request)]"
  have load: "load_conversations ?file = Inr (JList [?rec])"
    by (simp only: serve_hello_once load_conversations_simps)
  have two: "str_int 2 = ''2''"
    by (simp add: str_int_def str_nat.simps digit_def)
  from get_conversation_by_id [where reqs = "[(hello_env, hi_request)]" and cid = 1]
  obtain h where h: "load_conversations ?file = Inr (JList h)"
    and found: "1 \<le> (1::int) \<and> 1 \<le> int (length h) \<longrightarrow>
          get_conversation 1 ?file =
            Inr (JDict [(''status'', JStr ''success''), (''conversation'', h ! nat (1 - 1))], 200)"
    by blast
  from h load have "h = [?rec]"
    by (simp del: serve.simps)
  with found have first: "get_conversation 1 ?file =
            Inr (JDict [(''status'', JStr ''success''), (''conversation'', ?rec)], 200)"
    by (simp del: serve.simps)
  from get_conversation_by_id [where reqs = "[(hello_env, hi_request)]" and cid = 2]
  obtain h' where h': "load_conversations ?file = Inr (JList h')"
    and missing: "(2::int) < 1 \<or> int (length h') < 2 \<longrightarrow>
          get_conversation 2 ?file =
            Inr (error_body (''Conversation #'' @ str_int 2 @ '' not found''), 404)"
    by blast
  from h' load have "h' = [?rec]"
    by (simp del: serve.simps)
  with missing have "get_conversation 2 ?file =
            Inr (error_body (''Conversation #'' @ str_int 2 @ '' not found''), 404)"
    by (simp del: serve.simps)
  then have second: "get_conversation 2 ?file =
     Inr (JDict [(''status'', JStr ''error''),
                 (''message'', JStr ''Conversation #2 not found'')], 404)"
    by (simp add: two error_body_def)
  from first second show ?thesis
    by (intro conjI)
qed

section \<open>Failures of the backend\<close>

text \<open>The decimal digits of a status code.\<close>

lemma digit_inj: "m < 10 \<Longrightarrow> n < 10 \<Longrightarrow> digit m = digit n \<Longrightarrow> m = n"
proof -
  assume "m < 10" "n < 10" "digit m = digit n"
  moreover have "distinct ''0123456789''"
    by simp
  moreover have "length ''0123456789'' = 10"
    by simp
  ultimately show "m = n"
    unfolding digit_def by (metis nth_eq_iff_index_eq)
qed

lemma str_nat_not_Nil: "str_nat n \<noteq> []"
  by (subst str_nat.simps) simp

lemma str_nat_small: "n < 10 \<Longrightarrow> str_nat n = [digit n]"
  by (subst str_nat.simps) simp

lemma str_nat_large: "\<not> n < 10 \<Longrightarrow> str_nat n = str_nat (n div 10) @ [digit (n mod 10)]"
  by (subst str_nat.simps) simp

lemma str_nat_inj: "str_nat m = str_nat n \<Longrightarrow> m = n"
proof (induction m arbitrary: n rule: str_nat.induct)
  case (1 m)
  show ?case
  proof (cases "m < 10")
    case small: True
    show ?thesis
    proof (cases "n < 10")
      case True
      then have "digit m = digit n"
        using small "1.prems" by (simp add: str_nat_small)
      with small True show ?thesis
        by (rule digit_inj)
    next
      case False
      then have "[digit m] = str_nat (n div 10) @ [digit (n mod 10)]"
        using small "1.prems" by (simp add: str_nat_small str_nat_large)
      then show ?thesis
        using str_nat_not_Nil [of "n div 10"] by simp
    qed
  next
    case large: False
    show ?thesis
    proof (cases "n < 10")
      case True
      then have "str_nat (m div 10) @ [digit (m mod 10)] = [digit n]"
        using large "1.prems" by (simp add: str_nat_small str_nat_large)
      then show ?thesis
        using str_nat_not_Nil [of "m div 10"] by simp
    next
      case False
      then have eq: "str_nat (m div 10) = str_nat (n div 10)" "digit (m mod 10) = digit (n mod 10)"
        using large "1.prems" by (simp_all add: str_nat_large)
      have "m div 10 = n div 10"
        using large eq(1) by (rule "1.IH")
      moreover have "m mod 10 < 10" "n mod 10 < 10"
        by simp_all
      then have "m mod 10 = n mod 10"
        using eq(2) by (rule digit_inj)
      ultimately show ?thesis
        by (metis div_mult_mod_eq)
    qed
  qed
qed

lemma digit_in: "d < 10 \<Longrightarrow> digit d \<in> set ''0123456789''"
  unfolding digit_def by (intro nth_mem) simp

lemma set_str_nat: "set (str_nat n) \<subseteq> set ''0123456789''"
proof (induction n rule: str_nat.induct)
  case (1 n)
  show ?case
  proof (cases "n < 10")
    case True
    then show ?thesis
      using digit_in [of n] by (simp add: str_nat_small)
  next
    case False
    then show ?thesis
      using "1.IH" digit_in [of "n mod 10"] by (simp add: str_nat_large)
  qed
qed

lemma no_minus_str_nat: "CHR ''-'' # s \<noteq> str_nat n"
proof
  assume "CHR ''-'' # s = str_nat n"
  then have "CHR ''-'' \<in> set (str_nat n)"
    by (metis list.set_intros(1))
  then show False
    using set_str_nat [of n] by auto
qed

lemma str_int_inj: "str_int a = str_int b \<Longrightarrow> a = b"
proof -
  assume eq: "str_int a = str_int b"
  consider "a < 0" "b < 0" | "a < 0" "\<not> b < 0" | "\<not> a < 0" "b < 0" | "\<not> a < 0" "\<not> b < 0"
    by blast
  then show "a = b"
  proof cases
    case 1
    then have "nat (- a) = nat (- b)"
      using eq by (simp add: str_int_def str_nat_inj)
    then show ?thesis using 1 by simp
  next
    case 2
    then show ?thesis
      using eq no_minus_str_nat by (simp add: str_int_def)
  next
    case 3
    then show ?thesis
      using eq no_minus_str_nat [of "str_nat (nat (- b))" "nat a"] by (simp add: str_int_def)
  next
    case 4
    then have "nat a = nat b"
      using eq by (simp add: str_int_def str_nat_inj)
    then show ?thesis using 4 by simp
  qed
qed

lemma str_nat_three_digits:
  assumes "100 \<le> n" and "n \<le> 999"
  shows "str_nat n = [digit (n div 100), digit (n div 10 mod 10), digit (n mod 10)]"
proof -
  have hundreds: "n div 10 div 10 = n div 100"
    by (simp flip: div_mult2_eq)
  have one: "str_nat n = str_nat (n div 10) @ [digit (n mod 10)]"
    using assms by (intro str_nat_large) simp
  have "str_nat (n div 10) = str_nat (n div 10 div 10) @ [digit (n div 10 mod 10)]"
    using assms by (intro str_nat_large) simp
  then have two: "str_nat (n div 10) = str_nat (n div 100) @ [digit (n div 10 mod 10)]"
    by (simp only: hundreds)
  have three: "str_nat (n div 100) = [digit (n div 100)]"
    using assms by (intro str_nat_small) simp
  show ?thesis
    by (simp only: one two three append.simps)
qed

lemma str_int_three_digits:
  assumes "100 \<le> sc" and "sc \<le> 999"
  shows "str_int sc = [''0123456789'' ! nat (sc div 100),
                       ''0123456789'' ! nat (sc div 10 mod 10),
                       ''0123456789'' ! nat (sc mod 10)]"
proof -
  have "str_int sc = str_nat (nat sc)"
    using assms by (simp add: str_int_def)
  also have "\<dots> = [digit (nat sc div 100), digit (nat sc div 10 mod 10), digit (nat sc mod 10)]"
    using assms by (intro str_nat_three_digits) simp_all
  also have "nat sc div 100 = nat (sc div 100)"
    using assms by (simp add: nat_div_distrib)
  also have "nat sc div 10 mod 10 = nat (sc div 10 mod 10)"
    using assms by (simp add: nat_div_distrib nat_mod_distrib)
  also have "nat sc mod 10 = nat (sc mod 10)"
    using assms by (simp add: nat_mod_distrib)
  finally show ?thesis
    by (simp only: digit_def)
qed

lemma generate_text_wrong_shape:
  "read_prompt req = Inr p \<Longrightarrow> backend w p = Responds 200 (Inr result) \<Longrightarrow> \<not> is_dict result \<Longrightarrow>
     generate_text w req f = ((error_body (str_exn (no_attribute result ''get'')), 500), f, [p])"
  by (cases result) (simp_all add: generate_text_def generate_try_def)

lemma generate_text_wrong_text:
  "read_prompt req = Inr p \<Longrightarrow> backend w p = Responds 200 (Inr (JDict kv)) \<Longrightarrow>
     map_of kv ''response'' = Some v \<Longrightarrow> \<forall>s. v \<noteq> JStr s \<Longrightarrow>
     generate_text w req f = ((error_body (str_exn (no_attribute v ''strip'')), 500), f, [p])"
  by (cases v) (simp_all add: generate_text_def generate_try_def)

text \<open>
  Claim C4. Once the handler of \<^verbatim>\<open>POST /generate\<close> has read the prompt \<open>p\<close> and
  called the backend: a status other than 200 is answered with the error document whose
  message ends in the decimal digits of the status code (three digits for a code from 100
  to 999, and different codes give different messages); an exception of
  \<^verbatim>\<open>requests.post\<close> (timeout, connection error), a body that
  \<^verbatim>\<open>response.json()\<close> rejects, a JSON body that is not an object and a generated
  text that is not a string are answered with the error document whose message is the
  text of the exception. Each time the storage file is left as it was.
\<close>

theorem generate_text_backend_failure:
  assumes "read_prompt req = Inr p"
  shows "(backend w p = Responds sc body \<and> sc \<noteq> 200 \<longrightarrow>
            generate_text w req f =
              ((JDict [(''status'', JStr ''error''),
                       (''message'', JStr (''Ollama API error: '' @ str_int sc))], 500), f, [p]))
         \<and> (100 \<le> sc \<and> sc \<le> 999 \<longrightarrow>
            str_int sc = [''0123456789'' ! nat (sc div 100),
                          ''0123456789'' ! nat (sc div 10 mod 10),
                          ''0123456789'' ! nat (sc mod 10)])
         \<and> (str_int sc = str_int sc' \<longrightarrow> sc = sc')
         \<and> (backend w p = PostRaises e \<longrightarrow>
            generate_text w req f =
              ((JDict [(''status'', JStr ''error''), (''message'', JStr (str_exn e))], 500), f, [p]))
         \<and> (backend w p = Responds 200 (Inl e) \<longrightarrow>
            generate_text w req f =
              ((JDict [(''status'', JStr ''error''), (''message'', JStr (str_exn e))], 500), f, [p]))
         \<and> str_exn (LibraryError m) = m
         \<and> (backend w p = Responds 200 (Inr result) \<and> \<not> is_dict result \<longrightarrow>
            generate_text w req f =
              ((JDict [(''status'', JStr ''error''),
                       (''message'', JStr (str_exn (no_attribute result ''get'')))], 500), f, [p]))
         \<and> (backend w p = Responds 200 (Inr (JDict kv)) \<and> map_of kv ''response'' = Some v
              \<and> (\<forall>s. v \<noteq> JStr s) \<longrightarrow>
            generate_text w req f =
              ((JDict [(''status'', JStr ''error''),
                       (''message'', JStr (str_exn (no_attribute v ''strip'')))], 500), f, [p]))"
proof (intro conjI impI)
  assume "backend w p = Responds sc body \<and> sc \<noteq> 200"
  then show "generate_text w req f =
              ((JDict [(''status'', JStr ''error''),
                       (''message'', JStr (''Ollama API error: '' @ str_int sc))], 500), f, [p])"
    using assms generate_text_backend_status [of req p w sc body f] by (simp add: error_body_def)
next
  assume "100 \<le> sc \<and> sc \<le> 999"
  then show "str_int sc = [''0123456789'' ! nat (sc div 100),
                          ''0123456789'' ! nat (sc div 10 mod 10),
                          ''0123456789'' ! nat (sc mod 10)]"
    by (simp add: str_int_three_digits)
next
  assume "str_int sc = str_int sc'"
  then show "sc = sc'"
    by (rule str_int_inj)
next
  assume "backend w p = PostRaises e"
  then show "generate_text w req f =
              ((JDict [(''status'', JStr ''error''), (''message'', JStr (str_exn e))], 500), f, [p])"
    using assms generate_text_backend_raises [of req p w e f] by (simp add: error_body_def)
next
  assume "backend w p = Responds 200 (Inl e)"
  then show "generate_text w req f =
              ((JDict [(''status'', JStr ''error''), (''message'', JStr (str_exn e))], 500), f, [p])"
    using assms generate_text_backend_garbled [of req p w e f] by (simp add: error_body_def)
next
  show "str_exn (LibraryError m) = m"
    by simp
next
  assume "backend w p = Responds 200 (Inr result) \<and> \<not> is_dict result"
  then show "generate_text w req f =
              ((JDict [(''status'', JStr ''error''),
                       (''message'', JStr (str_exn (no_attribute result ''get'')))], 500), f, [p])"
    using assms generate_text_wrong_shape [of req p w result f] by (simp add: error_body_def)
next
  assume "backend w p = Responds 200 (Inr (JDict kv)) \<and> map_of kv ''response'' = Some v
              \<and> (\<forall>s. v \<noteq> JStr s)"
  then show "generate_text w req f =
              ((JDict [(''status'', JStr ''error''),
                       (''message'', JStr (str_exn (no_attribute v ''strip'')))], 500), f, [p])"
    using assms generate_text_wrong_text [of req p w kv v f] by (simp add: error_body_def)
qed

theorem generate_text_backend_failure_witness:
  "read_prompt hi_request = Inr (JStr ''Hi'')
   \<and> backend missing_env (JStr ''Hi'') = Responds 404 (Inr (JDict [(''error'', JStr ''model not found'')]))
   \<and> generate_text missing_env hi_request Absent =
        ((JDict [(''status'', JStr ''error''), (''message'', JStr ''Ollama API error: 404'')], 500),
         Absent, [JStr ''Hi''])
   \<and> backend failing_env (JStr ''Hi'') = Responds 500 (Inr (JDict [(''error'', JStr ''model not found'')]))
   \<and> generate_text failing_env hi_request Absent =
        ((JDict [(''status'', JStr ''error''), (''message'', JStr ''Ollama API error: 500'')], 500),
         Absent, [JStr ''Hi''])
   \<and> backend offline_env (JStr ''Hi'') = PostRaises (LibraryError ''Connection refused'')
   \<and> generate_text offline_env hi_request Absent =
        ((JDict [(''status'', JStr ''error''), (''message'', JStr ''Connection refused'')], 500),
         Absent, [JStr ''Hi''])
   \<and> backend garbled_env (JStr ''Hi'') = Responds 200 (Inl (LibraryError ''Expecting value''))
   \<and> generate_text garbled_env hi_request Absent =
        ((JDict [(''status'', JStr ''error''), (''message'', JStr ''Expecting value'')], 500),
         Absent, [JStr ''Hi''])
   \<and> backend listing_env (JStr ''Hi'') = Responds 200 (Inr (JList []))
   \<and> generate_text listing_env hi_request Absent =
        ((JDict [(''status'', JStr ''error''),
                 (''message'', JStr (CHR 0x27 # ''list'' @ [CHR 0x27] @ '' object has no attribute ''
                                      @ [CHR 0x27] @ ''get'' @ [CHR 0x27]))], 500),
         Absent, [JStr ''Hi''])
   \<and> backend counting_env (JStr ''Hi'') = Responds 200 (Inr (JDict [(''response'', JInt 7)]))
   \<and> generate_text counting_env hi_request Absent =
        ((JDict [(''status'', JStr ''error''),
                 (''message'', JStr (CHR 0x27 # ''int'' @ [CHR 0x27] @ '' object has no attribute ''
                                      @ [CHR 0x27] @ ''strip'' @ [CHR 0x27]))], 500),
         Absent, [JStr ''Hi''])"
proof -
  have missing: "backend missing_env (JStr ''Hi'')
                  = Responds 404 (Inr (JDict [(''error'', JStr ''model not found'')]))"
    by (simp add: missing_env_def hello_env_def)
  have status: "backend failing_env (JStr ''Hi'')
                  = Responds 500 (Inr (JDict [(''error'', JStr ''model not found'')]))"
    by (simp add: failing_env_def hello_env_def)
  have raises: "backend offline_env (JStr ''Hi'') = PostRaises (LibraryError ''Connection refused'')"
    by (simp add: offline_env_def hello_env_def)
  have garbled: "backend garbled_env (JStr ''Hi'') = Responds 200 (Inl (LibraryError ''Expecting value''))"
    by (simp add: garbled_env_def hello_env_def)
  have listing: "backend listing_env (JStr ''Hi'') = Responds 200 (Inr (JList []))"
    by (simp add: listing_env_def hello_env_def)
  have counting: "backend counting_env (JStr ''Hi'') = Responds 200 (Inr (JDict [(''response'', JInt 7)]))"
    by (simp add: counting_env_def hello_env_def)
  note failure = generate_text_backend_failure [OF read_prompt_hi]
  from failure [where w = missing_env and sc = 404 and f = Absent] missing
  have a: "generate_text missing_env hi_request Absent =
        ((JDict [(''status'', JStr ''error''), (''message'', JStr ''Ollama API error: 404'')], 500),
         Absent, [JStr ''Hi''])"
    by simp
  from failure [where w = failing_env and sc = 500 and f = Absent] status
  have b: "generate_text failing_env hi_request Absent =
        ((JDict [(''status'', JStr ''error''), (''message'', JStr ''Ollama API error: 500'')], 500),
         Absent, [JStr ''Hi''])"
    by simp
  from failure [where w = offline_env and e = "LibraryError ''Connection refused''" and f = Absent] raises
  have c: "generate_text offline_env hi_request Absent =
        ((JDict [(''status'', JStr ''error''), (''message'', JStr ''Connection refused'')], 500),
         Absent, [JStr ''Hi''])"
    by simp
  from failure [where w = garbled_env and e = "LibraryError ''Expecting value''" and f = Absent] garbled
  have d: "generate_text garbled_env hi_request Absent =
        ((JDict [(''status'', JStr ''error''), (''message'', JStr ''Expecting value'')], 500),
         Absent, [JStr ''Hi''])"
    by simp
  from failure [where w = listing_env and result = "JList []" and f = Absent] listing
  have e: "generate_text listing_env hi_request Absent =
        ((JDict [(''status'', JStr ''error''),
                 (''message'', JStr (CHR 0x27 # ''list'' @ [CHR 0x27] @ '' object has no attribute ''
                                      @ [CHR 0x27] @ ''get'' @ [CHR 0x27]))], 500),
         Absent, [JStr ''Hi''])"
    by (simp add: no_attribute_def quoted_def)
  from failure [where w = counting_env and kv = "[(''response'', JInt 7)]" and v = "JInt 7"
      and f = Absent] counting
  have g: "generate_text counting_env hi_request Absent =
        ((JDict [(''status'', JStr ''error''),
                 (''message'', JStr (CHR 0x27 # ''int'' @ [CHR 0x27] @ '' object has no attribute ''
                                      @ [CHR 0x27] @ ''strip'' @ [CHR 0x27]))], 500),
         Absent, [JStr ''Hi''])"
    by (simp add: no_attribute_def quoted_def)
  from read_prompt_hi missing a status b raises c garbled d listing e counting g show ?thesis
    by (intro conjI)
qed

section \<open>Answers of the gateway\<close>

lemma read_prompt_falsy:
  assumes "body = JNull \<or> body = JBool False \<or> body = JInt 0 \<or> body = JStr [] \<or> body = JList []
             \<or> (\<exists>kv. body = JDict kv \<and> map_of kv ''prompt'' = None)"
  shows "read_prompt (Inr body) = Inr (JStr ''Hello, how are you?'')"
proof -
  have "\<not> truthy body \<or> (\<exists>kv. body = JDict kv \<and> map_of kv ''prompt'' = None)"
    using assms by auto
  then show ?thesis
    using read_prompt_absent [of body] by (simp add: default_prompt_def)
qed

text \<open>
  Claim C5, amended. When the body of the request is an object without the key
  \<open>prompt\<close>, or is \<open>null\<close>, \<open>false\<close>, 0, an empty string, an empty list or an
  empty object (which \<^verbatim>\<open>or {}\<close> replaces by an empty object), the backend is called
  with the default prompt \<open>Hello, how are you?\<close>. A prompt that is the empty string is
  not replaced: the backend is called with the empty string.
\<close>

theorem generate_text_default_prompt:
  "(body = JNull \<or> body = JBool False \<or> body = JInt 0 \<or> body = JStr [] \<or> body = JList []
      \<or> (\<exists>kv. body = JDict kv \<and> map_of kv ''prompt'' = None) \<longrightarrow>
      snd (snd (generate_text w (Inr body) f)) = [JStr ''Hello, how are you?''])
   \<and> (body = JDict kv \<and> map_of kv ''prompt'' = Some (JStr []) \<longrightarrow>
      snd (snd (generate_text w (Inr body) f)) = [JStr []])"
proof (intro conjI impI)
  assume "body = JNull \<or> body = JBool False \<or> body = JInt 0 \<or> body = JStr [] \<or> body = JList []
      \<or> (\<exists>kv. body = JDict kv \<and> map_of kv ''prompt'' = None)"
  then have "read_prompt (Inr body) = Inr (JStr ''Hello, how are you?'')"
    by (rule read_prompt_falsy)
  then show "snd (snd (generate_text w (Inr body) f)) = [JStr ''Hello, how are you?'']"
    by (rule calls_generate_text)
next
  assume "body = JDict kv \<and> map_of kv ''prompt'' = Some (JStr [])"
  then have "read_prompt (Inr body) = Inr (JStr [])"
    by (simp add: read_prompt_str)
  then show "snd (snd (generate_text w (Inr body) f)) = [JStr []]"
    by (rule calls_generate_text)
qed

theorem generate_text_default_prompt_witness:
  "map_of [(''temperature'', JInt 1)] ''prompt'' = None
   \<and> snd (snd (generate_text hello_env (Inr (JDict [(''temperature'', JInt 1)])) Absent))
        = [JStr ''Hello, how are you?'']
   \<and> snd (snd (generate_text hello_env (Inr JNull) Absent)) = [JStr ''Hello, how are you?'']
   \<and> map_of [(''prompt'', JStr [])] ''prompt'' = Some (JStr [])
   \<and> snd (snd (generate_text hello_env (Inr (JDict [(''prompt'', JStr [])])) Absent)) = [JStr []]"
proof -
  have "snd (snd (generate_text hello_env (Inr (JDict [(''temperature'', JInt 1)])) Absent))
        = [JStr ''Hello, how are you?'']"
    using generate_text_default_prompt
      [where body = "JDict [(''temperature'', JInt 1)]" and w = hello_env and f = Absent]
    by simp
  moreover have "snd (snd (generate_text hello_env (Inr JNull) Absent)) = [JStr ''Hello, how are you?'']"
    using generate_text_default_prompt [where body = JNull and w = hello_env and f = Absent]
    by simp
  moreover have "snd (snd (generate_text hello_env (Inr (JDict [(''prompt'', JStr [])])) Absent)) = [JStr []]"
    using generate_text_default_prompt
      [where body = "JDict [(''prompt'', JStr [])]" and w = hello_env and f = Absent
         and kv = "[(''prompt'', JStr [])]"]
    by simp
  ultimately show ?thesis
    by simp
qed



text \<open>
  Claim C10, as stated, fails: a backend that answers with the success status 201 and a
  JSON object without the key \<open>response\<close>, and one that answers 200 with a JSON list,
  both get the error document, and nothing is stored.
\<close>

theorem generate_text_lacking_field_fails:
  "backend created_env (JStr ''Hi'') = Responds 201 (Inr (JDict [(''done'', JBool True)]))
   \<and> generate_text created_env hi_request Absent =
        ((JDict [(''status'', JStr ''error''), (''message'', JStr ''Ollama API error: 201'')], 500),
         Absent, [JStr ''Hi''])
   \<and> backend listing_env (JStr ''Hi'') = Responds 200 (Inr (JList []))
   \<and> generate_text listing_env hi_request Absent =
        ((JDict [(''status'', JStr ''error''),
                 (''message'', JStr (CHR 0x27 # ''list'' @ [CHR 0x27] @ '' object has no attribute ''
                                      @ [CHR 0x27] @ ''get'' @ [CHR 0x27]))], 500),
         Absent, [JStr ''Hi''])"
proof -
  have created: "backend created_env (JStr ''Hi'') = Responds 201 (Inr (JDict [(''done'', JBool True)]))"
    by (simp add: created_env_def hello_env_def)
  have listing: "backend listing_env (JStr ''Hi'') = Responds 200 (Inr (JList []))"
    by (simp add: listing_env_def hello_env_def)
  have "str_int 201 = ''201''"
    by (simp add: str_int_three_digits)
  then have a: "generate_text created_env hi_request Absent =
        ((JDict [(''status'', JStr ''error''), (''message'', JStr ''Ollama API error: 201'')], 500),
         Absent, [JStr ''Hi''])"
    using generate_text_backend_status [OF read_prompt_hi created, of Absent]
    by (simp add: error_body_def)
  have b: "generate_text listing_env hi_request Absent =
        ((JDict [(''status'', JStr ''error''),
                 (''message'', JStr (CHR 0x27 # ''list'' @ [CHR 0x27] @ '' object has no attribute ''
                                      @ [CHR 0x27] @ ''get'' @ [CHR 0x27]))], 500),
         Absent, [JStr ''Hi''])"
    using generate_text_wrong_shape [OF read_prompt_hi listing, of Absent]
    by (simp add: error_body_def no_attribute_def quoted_def)
  from created a listing b show ?thesis
    by (intro conjI)
qed

text \<open>
  Claim C10, amended. When the backend answers with the status 200 and a JSON object
  that has no key \<open>response\<close>, and the append goes through (the history loads as a list
  of records and the write succeeds), the generated text is the empty string: the handler
  answers with the success document and an empty text, and the record it stores (the last
  of the file) has an empty response and the response length 0.
\<close>

theorem generate_text_missing_response:
  assumes prompt: "read_prompt req = Inr p"
    and answer: "backend w p = Responds 200 (Inr (JDict kv))"
    and missing: "map_of kv ''response'' = None"
    and load: "load_conversations f = Inr (JList h)"
    and dicts: "100 \<le> length h \<Longrightarrow> \<forall>c\<in>set (drop (length h - 99) h). is_dict c"
    and written: "write w = Written"
  shows "\<exists>cid h'. generate_text w req f =
             ((JDict [(''status'', JStr ''success''),
                      (''generated_text'', JStr []),
                      (''model'', JStr (model_name w)),
                      (''conversation_id'', JInt cid)], 200), Holds (JList h'), [p])
           \<and> h' \<noteq> []
           \<and> field (last h') ''response'' = Some (JStr [])
           \<and> field (last h') ''response_length'' = Some (JInt 0)
           \<and> field (last h') ''prompt'' = Some p
           \<and> field (last h') ''id'' = Some (JInt cid)"
proof -
  let ?h' = "kept (h @ [new_conversation (length h) (now w) p [] (model_name w)])"
  let ?cid = "if length h < 100 then int (length h) + 1 else 100"
  have reply: "py_get (JDict kv) ''response'' (JStr []) = Inr (JStr [])"
    using missing by simp
  have "generate_text w req f = ((success_body [] (model_name w) (JInt ?cid), 200), Holds (JList ?h'), [p])"
    using generate_text_stores [OF prompt answer reply load dicts written] by simp
  then have "generate_text w req f =
             ((JDict [(''status'', JStr ''success''),
                      (''generated_text'', JStr []),
                      (''model'', JStr (model_name w)),
                      (''conversation_id'', JInt ?cid)], 200), Holds (JList ?h'), [p])"
    by (simp add: success_body_def)
  moreover have "?h' \<noteq> []"
    by simp
  moreover have "field (last ?h') ''response'' = Some (JStr [])"
    by (simp add: field_last_kept)
  moreover have "field (last ?h') ''response_length'' = Some (JInt 0)"
    by (simp add: field_last_kept)
  moreover have "field (last ?h') ''prompt'' = Some p"
    by (simp add: field_last_kept)
  moreover have "field (last ?h') ''id'' = Some (JInt ?cid)"
    by (rule id_last_kept)
  ultimately show ?thesis
    by blast
qed

theorem generate_text_missing_response_witness:
  "read_prompt hi_request = Inr (JStr ''Hi'')
   \<and> backend silent_env (JStr ''Hi'') = Responds 200 (Inr (JDict [(''done'', JBool True)]))
   \<and> map_of [(''done'', JBool True)] ''response'' = None
   \<and> load_conversations Absent = Inr (JList [])
   \<and> write silent_env = Written
   \<and> (\<exists>cid h'. generate_text silent_env hi_request Absent =
             ((JDict [(''status'', JStr ''success''),
                      (''generated_text'', JStr []),
                      (''model'', JStr ''llama3.2:3b''),
                      (''conversation_id'', JInt cid)], 200), Holds (JList h'), [JStr ''Hi''])
           \<and> h' \<noteq> []
           \<and> field (last h') ''response'' = Some (JStr [])
           \<and> field (last h') ''response_length'' = Some (JInt 0)
           \<and> field (last h') ''prompt'' = Some (JStr ''Hi'')
           \<and> field (last h') ''id'' = Some (JInt cid))"
proof -
  have answer: "backend silent_env (JStr ''Hi'') = Responds 200 (Inr (JDict [(''done'', JBool True)]))"
    by (simp add: silent_env_def hello_env_def)
  have missing: "map_of [(''done'', JBool True)] ''response'' = None"
    by simp
  have load: "load_conversations Absent = Inr (JList [])"
    by simp
  have dicts: "100 \<le> length ([] :: json list) \<Longrightarrow>
                 \<forall>c\<in>set (drop (length ([] :: json list) - 99) []). is_dict c"
    by simp
  have written: "write silent_env = Written"
    by (simp add: silent_env_def hello_env_def)
  have name: "model_name silent_env = ''llama3.2:3b''"
    by (simp add: silent_env_def hello_env_def)
  from generate_text_missing_response [OF read_prompt_hi answer missing load dicts written]
  have "\<exists>cid h'. generate_text silent_env hi_request Absent =
             ((JDict [(''status'', JStr ''success''),
                      (''generated_text'', JStr []),
                      (''model'', JStr ''llama3.2:3b''),
                      (''conversation_id'', JInt cid)], 200), Holds (JList h'), [JStr ''Hi''])
           \<and> h' \<noteq> []
           \<and> field (last h') ''response'' = Some (JStr [])
           \<and> field (last h') ''response_length'' = Some (JInt 0)
           \<and> field (last h') ''prompt'' = Some (JStr ''Hi'')
           \<and> field (last h') ''id'' = Some (JInt cid)"
    by (simp only: name)
  then show ?thesis
    using answer missing load written read_prompt_hi by (intro conjI)
qed

end
